theory Spec2Isabelle
  imports Complex_Main
begin

section \<open>JavaScript numbers and arrays\<close>

text \<open>
  A JavaScript number is modelled as a real number, one of the two infinities, or NaN.
  Arithmetic on finite numbers is exact: the rounding of doubles (and of the 32-bit
  floats that glMatrix vectors hold) and the sign of zero are not represented.
  The special values follow IEEE 754: NaN absorbs, \<open>\<infinity> - \<infinity>\<close> and \<open>0 * \<infinity>\<close> are NaN,
  and every comparison with NaN is false.
\<close>

datatype jsnum = Num real | PInf | NInf | NaN

fun js_neg :: "jsnum \<Rightarrow> jsnum" where
  "js_neg (Num a) = Num (- a)"
| "js_neg PInf = NInf"
| "js_neg NInf = PInf"
| "js_neg NaN = NaN"

fun js_add :: "jsnum \<Rightarrow> jsnum \<Rightarrow> jsnum" where
  "js_add (Num a) (Num b) = Num (a + b)"
| "js_add NaN _ = NaN"
| "js_add _ NaN = NaN"
| "js_add PInf NInf = NaN"
| "js_add NInf PInf = NaN"
| "js_add PInf _ = PInf"
| "js_add _ PInf = PInf"
| "js_add NInf _ = NInf"
| "js_add _ NInf = NInf"

definition js_sub :: "jsnum \<Rightarrow> jsnum \<Rightarrow> jsnum" where
  "js_sub a b = js_add a (js_neg b)"

text \<open>The infinity with the sign of a non-zero real.\<close>

definition inf_sign :: "real \<Rightarrow> jsnum" where
  "inf_sign s = (if s = 0 then NaN else if 0 < s then PInf else NInf)"

fun js_mul :: "jsnum \<Rightarrow> jsnum \<Rightarrow> jsnum" where
  "js_mul (Num a) (Num b) = Num (a * b)"
| "js_mul NaN _ = NaN"
| "js_mul _ NaN = NaN"
| "js_mul (Num a) PInf = inf_sign a"
| "js_mul (Num a) NInf = inf_sign (- a)"
| "js_mul PInf (Num b) = inf_sign b"
| "js_mul NInf (Num b) = inf_sign (- b)"
| "js_mul PInf PInf = PInf"
| "js_mul NInf NInf = PInf"
| "js_mul PInf NInf = NInf"
| "js_mul NInf PInf = NInf"

fun js_lt :: "jsnum \<Rightarrow> jsnum \<Rightarrow> bool" where
  "js_lt (Num a) (Num b) = (a < b)"
| "js_lt NaN _ = False"
| "js_lt _ NaN = False"
| "js_lt _ NInf = False"
| "js_lt PInf _ = False"
| "js_lt NInf _ = True"
| "js_lt _ PInf = True"

definition js_gt :: "jsnum \<Rightarrow> jsnum \<Rightarrow> bool" where
  "js_gt a b = js_lt b a"

fun js_sqrt :: "jsnum \<Rightarrow> jsnum" where
  "js_sqrt (Num a) = (if a < 0 then NaN else Num (sqrt a))"
| "js_sqrt PInf = PInf"
| "js_sqrt NInf = NaN"
| "js_sqrt NaN = NaN"

text \<open>
  Division.  A zero divisor is taken to be \<open>+0\<close>; the only division of the program,
  in \<open>vec3.normalize\<close>, is guarded by \<open>len > 0\<close>.
\<close>

fun js_div :: "jsnum \<Rightarrow> jsnum \<Rightarrow> jsnum" where
  "js_div (Num a) (Num b) = (if b = 0 then inf_sign a else Num (a / b))"
| "js_div NaN _ = NaN"
| "js_div _ NaN = NaN"
| "js_div (Num a) _ = Num 0"
| "js_div PInf (Num b) = (if b = 0 then PInf else inf_sign b)"
| "js_div NInf (Num b) = (if b = 0 then NInf else inf_sign (- b))"
| "js_div _ _ = NaN"

text \<open>
  Reading \<open>xs[k]\<close> for a number \<open>k\<close>: the element when \<open>k\<close> is an integer index inside
  the array, \<open>undefined\<close> (here \<open>None\<close>) otherwise.  No read ever throws.
\<close>

fun js_index :: "'a list \<Rightarrow> jsnum \<Rightarrow> 'a option" where
  "js_index xs (Num r) =
     (if 0 \<le> r \<and> r = of_int \<lfloor>r\<rfloor> \<and> nat \<lfloor>r\<rfloor> < length xs
      then Some (xs ! nat \<lfloor>r\<rfloor>) else None)"
| "js_index xs _ = None"

text \<open>The exceptions the modelled code can throw.\<close>

datatype js_error = TypeError

text \<open>\<open>ToNumber\<close> on a value that may be \<open>undefined\<close>: \<open>undefined\<close> becomes NaN.\<close>

fun to_num :: "jsnum option \<Rightarrow> jsnum" where
  "to_num None = NaN"
| "to_num (Some x) = x"

text \<open>
  An array that is written by index, \<open>a[k] = v\<close>, is an object: a \<open>length\<close> and a
  value for every property key that has been set.  Keys are the numbers used as
  subscripts.  Writing at an integer index at or beyond \<open>length\<close> extends the array;
  writing at any other key (a negative number, a fraction, NaN) sets an ordinary
  property and leaves \<open>length\<close> alone.  Reading a key never set gives \<open>undefined\<close>.
  The limit of \<open>2\<^sup>3\<^sup>2 - 1\<close> on array lengths is not represented.
\<close>

record jsarray =
  alen :: nat
  slot :: "jsnum \<Rightarrow> jsnum option"

definition new_Array :: "nat \<Rightarrow> jsarray" where
  "new_Array n = \<lparr>alen = n, slot = (\<lambda>k. None)\<rparr>"

definition js_get :: "jsarray \<Rightarrow> jsnum \<Rightarrow> jsnum option" where
  "js_get a k = slot a k"

definition js_set :: "jsarray \<Rightarrow> jsnum \<Rightarrow> jsnum \<Rightarrow> jsarray" where
  "js_set a k v =
     \<lparr>alen = (case k of
                Num r \<Rightarrow> if 0 \<le> r \<and> r = of_int \<lfloor>r\<rfloor> \<and> alen a \<le> nat \<lfloor>r\<rfloor>
                         then nat \<lfloor>r\<rfloor> + 1 else alen a
              | _ \<Rightarrow> alen a),
      slot = (slot a)(k \<mapsto> v)\<rparr>"

text \<open>\<open>a[k] += v\<close>: an \<open>undefined\<close> element counts as NaN in the sum.\<close>

definition js_add_assign :: "jsarray \<Rightarrow> jsnum \<Rightarrow> jsnum \<Rightarrow> jsarray" where
  "js_add_assign a k v = js_set a k (js_add (to_num (js_get a k)) v)"

definition js_push :: "jsarray \<Rightarrow> jsnum list \<Rightarrow> jsarray" where
  "js_push a vs = fold (\<lambda>v b. js_set b (Num (real (alen b))) v) vs a"

subsection \<open>The glMatrix vector operations used by the mesh\<close>

text \<open>
  glMatrix is a library the repository calls and does not contain.  Its \<open>vec3\<close>
  functions are written here as the library defines them, on triples.  A \<open>vec3\<close> is a
  \<open>Float32Array\<close>, so storing \<open>undefined\<close> into it stores NaN.
\<close>

type_synonym vec3 = "jsnum \<times> jsnum \<times> jsnum"

definition vec3_fromValues :: "jsnum option \<Rightarrow> jsnum option \<Rightarrow> jsnum option \<Rightarrow> vec3" where
  "vec3_fromValues x y z = (to_num x, to_num y, to_num z)"

fun vec3_nth :: "vec3 \<Rightarrow> nat \<Rightarrow> jsnum" where
  "vec3_nth (x, y, z) j = (if j = 0 then x else if j = 1 then y else z)"

fun vec3_subtract :: "vec3 \<Rightarrow> vec3 \<Rightarrow> vec3" where
  "vec3_subtract (a0, a1, a2) (b0, b1, b2) = (js_sub a0 b0, js_sub a1 b1, js_sub a2 b2)"

fun vec3_cross :: "vec3 \<Rightarrow> vec3 \<Rightarrow> vec3" where
  "vec3_cross (ax, ay, az) (bx, by, bz) =
     (js_sub (js_mul ay bz) (js_mul az by),
      js_sub (js_mul az bx) (js_mul ax bz),
      js_sub (js_mul ax by) (js_mul ay bx))"

fun vec3_normalize :: "vec3 \<Rightarrow> vec3" where
  "vec3_normalize (x, y, z) =
     (let len = js_add (js_add (js_mul x x) (js_mul y y)) (js_mul z z);
          len' = (if js_gt len (Num 0) then js_div (Num 1) (js_sqrt len) else len)
      in (js_mul x len', js_mul y len', js_mul z len'))"

section \<open>Mesh\<close>

text \<open>
  The fields of a \<open>Mesh\<close> object.  \<open>numNormals\<close> does not exist until
  \<open>generateNormals\<close> sets it.  The counts are natural numbers: the constructors set them
  to literals or to a length divided by three, and that length is a multiple of three.
  The buffers of the graphics API (\<open>generateBuffers\<close>, \<open>draw\<close>) and the extension
  check of the constructor only talk to the host and are left out.
\<close>

record mesh =
  vertices :: "jsnum list"
  faces :: "jsnum list"
  normals :: jsarray
  numFaces :: nat
  numVertices :: nat
  minXYZ :: "jsnum list"
  maxXYZ :: "jsnum list"
  numNormals :: "nat option"

definition new_Mesh :: mesh where
  "new_Mesh =
     \<lparr>vertices = [], faces = [], normals = new_Array 0, numFaces = 0, numVertices = 0,
      minXYZ = [Num 0, Num 0, Num 0], maxXYZ = [Num 0, Num 0, Num 0], numNormals = None\<rparr>"

subsection \<open>Bounding box\<close>

text \<open>
  \<open>computeAABB\<close> only reads \<open>this.vertices\<close> and updates \<open>this.minXYZ\<close> and
  \<open>this.maxXYZ\<close>; the loops thread the two boxes.  The inner loop over \<open>j = 0, 1, 2\<close>
  is \<open>aabb_inner\<close>, the outer loop over \<open>i = 0, 3, 6, \<dots>\<close> is \<open>aabb_outer\<close>.
\<close>

definition aabb_inner ::
  "jsnum list \<Rightarrow> nat \<Rightarrow> nat \<Rightarrow> jsnum list \<times> jsnum list \<Rightarrow> jsnum list \<times> jsnum list" where
  "aabb_inner vs i j = (\<lambda>(mn, mx).
     let v = to_num (js_index vs (Num (real (i + j))));
         mn' = (if js_lt v (mn ! j) then mn[j := v] else mn);
         mx' = (if js_gt v (mx ! j) then mx[j := v] else mx)
     in (mn', mx'))"

function aabb_outer ::
  "jsnum list \<Rightarrow> nat \<Rightarrow> jsnum list \<times> jsnum list \<Rightarrow> jsnum list \<times> jsnum list" where
  "aabb_outer vs i box =
     (if i < length vs then aabb_outer vs (i + 3) (fold (aabb_inner vs i) [0, 1, 2] box)
      else box)"
  by pat_completeness auto
termination
  by (relation "measure (\<lambda>(vs, i, box). length vs - i)") auto

declare aabb_outer.simps [simp del]

definition computeAABB :: "mesh \<Rightarrow> mesh" where
  "computeAABB m =
     (let (mn, mx) = aabb_outer (vertices m) 0 (minXYZ m, maxXYZ m)
      in m\<lparr>minXYZ := mn, maxXYZ := mx\<rparr>)"

subsection \<open>Vertex normals\<close>

definition getVertex :: "mesh \<Rightarrow> jsnum \<Rightarrow> vec3" where
  "getVertex m ident =
     (let vid = js_mul (Num 3) ident
      in vec3_fromValues (js_index (vertices m) (js_add vid (Num 0)))
                         (js_index (vertices m) (js_add vid (Num 1)))
                         (js_index (vertices m) (js_add vid (Num 2))))"

text \<open>The key \<open>3 * v + j\<close> of component \<open>j\<close> of the normal of vertex \<open>v\<close>.\<close>

definition normal_key :: "jsnum \<Rightarrow> nat \<Rightarrow> jsnum" where
  "normal_key v j = js_add (js_mul (Num 3) v) (Num (real j))"

text \<open>The first loop: \<open>normals[i] = 0\<close> for every \<open>i < normals.length\<close>.\<close>

definition zero_fill :: "jsarray \<Rightarrow> jsarray" where
  "zero_fill a = fold (\<lambda>i b. js_set b (Num (real i)) (Num 0)) [0..<alen a] a"

text \<open>The face normal of face \<open>i\<close>, as the body of the second loop computes it.\<close>

definition face_corner :: "mesh \<Rightarrow> nat \<Rightarrow> nat \<Rightarrow> jsnum" where
  "face_corner m i c = to_num (js_index (faces m) (Num (real (3 * i + c))))"

definition face_normal :: "mesh \<Rightarrow> nat \<Rightarrow> vec3" where
  "face_normal m i =
     (let v1Vec = getVertex m (face_corner m i 0);
          v2Vec = getVertex m (face_corner m i 1);
          v3Vec = getVertex m (face_corner m i 2);
          e1 = vec3_subtract v2Vec v1Vec;
          e2 = vec3_subtract v3Vec v1Vec
      in vec3_cross e1 e2)"

text \<open>One pass of the second loop: the face normal is added at the three corners.\<close>

definition accumulate_face :: "mesh \<Rightarrow> nat \<Rightarrow> jsarray \<Rightarrow> jsarray" where
  "accumulate_face m i a =
     (let v1 = face_corner m i 0; v2 = face_corner m i 1; v3 = face_corner m i 2;
          n = face_normal m i
      in fold (\<lambda>j b.
            js_add_assign
              (js_add_assign
                 (js_add_assign b (normal_key v1 j) (vec3_nth n j))
                 (normal_key v2 j) (vec3_nth n j))
              (normal_key v3 j) (vec3_nth n j))
          [0, 1, 2] a)"

text \<open>One pass of the third loop: the accumulated vector of vertex \<open>i\<close> is normalised.\<close>

definition normalize_vertex :: "nat \<Rightarrow> jsarray \<Rightarrow> jsarray" where
  "normalize_vertex i a =
     (let n = vec3_normalize
                (vec3_fromValues (js_get a (Num (real (3 * i))))
                                 (js_get a (Num (real (3 * i + 1))))
                                 (js_get a (Num (real (3 * i + 2)))));
          a1 = js_set a (Num (real (3 * i))) (vec3_nth n 0);
          a2 = js_set a1 (Num (real (3 * i + 1))) (vec3_nth n 1)
      in js_set a2 (Num (real (3 * i + 2))) (vec3_nth n 2))"

definition generateNormals :: "mesh \<Rightarrow> mesh" where
  "generateNormals m =
     (let nn = numVertices m;
          a0 = zero_fill (new_Array (nn * 3));
          a1 = fold (accumulate_face m) [0..<numFaces m] a0;
          a2 = fold normalize_vertex [0..<nn] a1
      in m\<lparr>normals := a2, numNormals := Some nn\<rparr>)"

subsection \<open>Procedural meshes\<close>

definition fromPlane :: "string \<Rightarrow> mesh" where
  "fromPlane axis =
     (let mesh0 = new_Mesh;
          mesh1 =
            (if axis = ''z'' \<or> axis = ''Z'' then
               mesh0\<lparr>vertices := vertices mesh0 @ map Num [-1, -1, 0, 1, -1, 0, 1, 1, 0, -1, 1, 0],
                      normals := js_push (normals mesh0) (map Num [0, 0, 1, 0, 0, 1, 0, 0, 1, 0, 0, 1])\<rparr>
             else if axis = ''x'' \<or> axis = ''X'' then
               mesh0\<lparr>vertices := vertices mesh0 @ map Num [0, -1, -1, 0, -1, 1, 0, 1, 1, 0, 1, -1],
                      normals := js_push (normals mesh0) (map Num [1, 0, 0, 1, 0, 0, 1, 0, 0, 1, 0, 0])\<rparr>
             else if axis = ''y'' \<or> axis = ''Y'' then
               mesh0\<lparr>vertices := vertices mesh0 @ map Num [-1, 0, -1, 1, 0, -1, 1, 0, 1, -1, 0, 1],
                      normals := js_push (normals mesh0) (map Num [0, 1, 0, 0, 1, 0, 0, 1, 0, 0, 1, 0])\<rparr>
             else mesh0);
          mesh2 = mesh1\<lparr>faces := faces mesh1 @ map Num [0, 1, 2] @ map Num [0, 2, 3]\<rparr>;
          mesh3 = mesh2\<lparr>numVertices := 4, numFaces := 2\<rparr>
      in generateNormals (computeAABB mesh3))"

definition fromCube :: "jsnum \<Rightarrow> mesh" where
  "fromCube sz =
     (let mesh0 = new_Mesh;
          mesh1 = mesh0\<lparr>vertices := vertices mesh0 @ map Num
                    [-0.5, 0.5, -0.5,   0.5, 0.5, -0.5,   0.5, 0.5, 0.5,   -0.5, 0.5, 0.5,
                     -0.5, -0.5, -0.5,  0.5, -0.5, -0.5,  0.5, -0.5, 0.5,  -0.5, -0.5, 0.5]\<rparr>;
          mesh2 = mesh1\<lparr>vertices := map (\<lambda>v. js_mul v sz) (vertices mesh1)\<rparr>;
          mesh3 = mesh2\<lparr>faces := faces mesh2 @ map Num
                    [0, 1, 2, 0, 2, 3,  3, 2, 6, 3, 6, 7,  5, 4, 6, 4, 7, 6,
                     1, 0, 5, 0, 4, 5,  2, 1, 5, 2, 5, 6,  0, 3, 7, 0, 7, 4]\<rparr>;
          mesh4 = mesh3\<lparr>numVertices := 8, numFaces := 12\<rparr>
      in generateNormals (computeAABB mesh4))"

subsection \<open>Reading the text of an OBJ file\<close>

text \<open>
  A string is a list of code units; the code units here are the 8-bit characters.
  \<open>fileText.split("\n")\<close> cuts at every line feed, \<open>line.split(/ +/)\<close> at every maximal
  run of spaces; both give at least one piece, and a separator at the start or at the
  end gives an empty piece there.
\<close>

function split_lines :: "string \<Rightarrow> string list" where
  "split_lines s =
     (let piece = takeWhile (\<lambda>c. c \<noteq> CHR 0x0A) s; rest = dropWhile (\<lambda>c. c \<noteq> CHR 0x0A) s
      in if rest = [] then [piece] else piece # split_lines (tl rest))"
  by pat_completeness auto
termination
proof (relation "measure length")
  fix s piece rest
  assume "rest = dropWhile (\<lambda>c. c \<noteq> CHR 0x0A) s" and "rest \<noteq> []"
  then have "length (tl rest) < length rest" and "length rest \<le> length s"
    by (simp_all add: length_dropWhile_le)
  then show "(tl rest, s) \<in> measure length" by simp
qed simp

declare split_lines.simps [simp del]

function split_spaces :: "string \<Rightarrow> string list" where
  "split_spaces s =
     (let piece = takeWhile (\<lambda>c. c \<noteq> CHR '' '') s; rest = dropWhile (\<lambda>c. c \<noteq> CHR '' '') s
      in if rest = [] then [piece]
         else piece # split_spaces (dropWhile (\<lambda>c. c = CHR '' '') rest))"
  by pat_completeness auto
termination
proof (relation "measure length")
  fix s piece rest
  assume r: "rest = dropWhile (\<lambda>c. c \<noteq> CHR '' '') s" and ne: "rest \<noteq> []"
  then have "hd rest = CHR '' ''"
    using hd_dropWhile [of "\<lambda>c. c \<noteq> CHR '' ''" s] by simp
  then have "dropWhile (\<lambda>c. c = CHR '' '') rest = dropWhile (\<lambda>c. c = CHR '' '') (tl rest)"
    using ne by (cases rest) simp_all
  moreover have "length (dropWhile (\<lambda>c. c = CHR '' '') (tl rest)) \<le> length (tl rest)"
    by (rule length_dropWhile_le)
  ultimately have "length (dropWhile (\<lambda>c. c = CHR '' '') rest) \<le> length (tl rest)"
    by simp
  moreover have "length (tl rest) < length rest" using ne by simp
  moreover have "length rest \<le> length s" using r by (simp add: length_dropWhile_le)
  ultimately show "(dropWhile (\<lambda>c. c = CHR '' '') rest, s) \<in> measure length" by simp
qed simp

declare split_spaces.simps [simp del]

text \<open>
  The white space that \<open>parseFloat\<close> and \<open>parseInt\<close> skip at the start: tab, line feed,
  vertical tab, form feed, carriage return, space and no-break space.
\<close>

definition js_whitespace :: "char \<Rightarrow> bool" where
  "js_whitespace c \<longleftrightarrow> c \<in> {CHR 0x09, CHR 0x0A, CHR 0x0B, CHR 0x0C, CHR 0x0D, CHR 0x20, CHR 0xA0}"

text \<open>The value of a digit in a radix up to 16, \<open>None\<close> for any other character.\<close>

definition hex_digit :: "char \<Rightarrow> nat option" where
  "hex_digit = map_of
     [(CHR ''0'', 0), (CHR ''1'', 1), (CHR ''2'', 2), (CHR ''3'', 3), (CHR ''4'', 4),
      (CHR ''5'', 5), (CHR ''6'', 6), (CHR ''7'', 7), (CHR ''8'', 8), (CHR ''9'', 9),
      (CHR ''a'', 10), (CHR ''b'', 11), (CHR ''c'', 12), (CHR ''d'', 13), (CHR ''e'', 14),
      (CHR ''f'', 15), (CHR ''A'', 10), (CHR ''B'', 11), (CHR ''C'', 12), (CHR ''D'', 13),
      (CHR ''E'', 14), (CHR ''F'', 15)]"

definition is_digit :: "nat \<Rightarrow> char \<Rightarrow> bool" where
  "is_digit radix c = (case hex_digit c of None \<Rightarrow> False | Some d \<Rightarrow> d < radix)"

definition digits_value :: "nat \<Rightarrow> string \<Rightarrow> nat" where
  "digits_value radix ds = foldl (\<lambda>acc c. radix * acc + the (hex_digit c)) 0 ds"

text \<open>An optional sign at the start: whether it is a minus, and the rest.\<close>

fun strip_sign :: "string \<Rightarrow> bool \<times> string" where
  "strip_sign [] = (False, [])"
| "strip_sign (c # cs) =
     (if c = CHR ''-'' then (True, cs) else if c = CHR ''+'' then (False, cs) else (False, c # cs))"

text \<open>\<open>ToString\<close> of an argument that may be \<open>undefined\<close>.\<close>

fun js_ToString :: "string option \<Rightarrow> string" where
  "js_ToString None = ''undefined''"
| "js_ToString (Some s) = s"

text \<open>
  \<open>parseInt\<close> without a radix: white space, a sign, \<open>0x\<close> or \<open>0X\<close> for radix 16, then
  the longest run of digits; NaN when that run is empty.  Whatever follows the digits
  is ignored.
\<close>

definition parseInt :: "string option \<Rightarrow> jsnum" where
  "parseInt string =
     (let S = dropWhile js_whitespace (js_ToString string);
          (minus, S1) = strip_sign S;
          (R, S2) = (if take 2 S1 = ''0x'' \<or> take 2 S1 = ''0X'' then (16, drop 2 S1) else (10, S1));
          Z = takeWhile (is_digit R) S2
      in if Z = [] then NaN
         else Num ((if minus then - 1 else 1) * real (digits_value R Z)))"

text \<open>
  \<open>parseFloat\<close>: white space, a sign, then \<open>Infinity\<close> or the longest decimal literal
  (digits, a fraction, an exponent that has at least one digit); NaN when there is
  neither an integer digit nor a fraction digit.  Whatever follows is ignored.
\<close>

definition parse_exponent :: "string \<Rightarrow> int" where
  "parse_exponent s =
     (case s of
        [] \<Rightarrow> 0
      | c # t \<Rightarrow>
          if c = CHR ''e'' \<or> c = CHR ''E'' then
            (let (minus, t1) = strip_sign t; ds = takeWhile (is_digit 10) t1
             in if ds = [] then 0
                else (if minus then - 1 else 1) * int (digits_value 10 ds))
          else 0)"

definition pow10 :: "int \<Rightarrow> real" where
  "pow10 e = (if 0 \<le> e then 10 ^ nat e else 1 / 10 ^ nat (- e))"

definition parseFloat :: "string option \<Rightarrow> jsnum" where
  "parseFloat string =
     (let S = dropWhile js_whitespace (js_ToString string);
          (minus, S1) = strip_sign S
      in if take 8 S1 = ''Infinity'' then (if minus then NInf else PInf)
         else
           (let ip = takeWhile (is_digit 10) S1;
                r1 = dropWhile (is_digit 10) S1;
                fp = (case r1 of [] \<Rightarrow> [] | c # t \<Rightarrow> if c = CHR ''.'' then takeWhile (is_digit 10) t else []);
                r2 = (case r1 of [] \<Rightarrow> [] | c # t \<Rightarrow> if c = CHR ''.'' then dropWhile (is_digit 10) t else r1)
            in if ip = [] \<and> fp = [] then NaN
               else Num ((if minus then - 1 else 1)
                         * (real (digits_value 10 ip) + real (digits_value 10 fp) / 10 ^ length fp)
                         * pow10 (parse_exponent r2))))"

subsection \<open>Meshes from OBJ text\<close>

text \<open>The body of the loop over the lines, for one line.\<close>

definition parse_line :: "string \<Rightarrow> mesh \<Rightarrow> mesh" where
  "parse_line line mesh =
     (if js_index line (Num 0) = Some CHR ''#'' then mesh
      else
        (let split = split_spaces line
         in if js_index split (Num 0) = Some ''v'' then
              mesh\<lparr>vertices := vertices mesh @
                     [parseFloat (js_index split (Num 1)),
                      parseFloat (js_index split (Num 2)),
                      parseFloat (js_index split (Num 3))]\<rparr>
            else if js_index split (Num 0) = Some ''f'' then
              mesh\<lparr>faces := faces mesh @
                     [js_sub (parseInt (js_index split (Num 1))) (Num 1),
                      js_sub (parseInt (js_index split (Num 2))) (Num 1),
                      js_sub (parseInt (js_index split (Num 3))) (Num 1)]\<rparr>
            else mesh))"

text \<open>
  The loop \<open>for (i = 0; i < lines.length; i++)\<close>.  Reading \<open>line[0]\<close> would throw if
  \<open>lines[i]\<close> were \<open>undefined\<close>; that is the only operation of the loop that can throw.
\<close>

function obj_loop :: "string list \<Rightarrow> nat \<Rightarrow> mesh \<Rightarrow> js_error + mesh" where
  "obj_loop lines i mesh =
     (if i < length lines then
        (case js_index lines (Num (real i)) of
           None \<Rightarrow> Inl TypeError
         | Some line \<Rightarrow> obj_loop lines (i + 1) (parse_line line mesh))
      else Inr mesh)"
  by pat_completeness auto
termination
  by (relation "measure (\<lambda>(lines, i, mesh). length lines - i)") auto

declare obj_loop.simps [simp del]

definition fromObj :: "string \<Rightarrow> js_error + mesh" where
  "fromObj fileText =
     (let mesh = new_Mesh;
          lines = split_lines fileText
      in case obj_loop lines 0 mesh of
           Inl e \<Rightarrow> Inl e
         | Inr mesh1 \<Rightarrow>
             (let mesh2 = mesh1\<lparr>numVertices := length (vertices mesh1) div 3\<rparr>;
                  mesh3 = mesh2\<lparr>numFaces := length (faces mesh2) div 3\<rparr>
              in Inr (generateNormals (computeAABB mesh3))))"

section \<open>Shader\<close>

text \<open>
  The graphics API is the host: whether a source compiles and whether two compiled
  shaders link is the host's answer, taken as a parameter.  A shader handle records
  what was given to \<open>gl.createShader\<close> and \<open>gl.shaderSource\<close>, a program handle the two
  shaders attached to it.  \<open>null\<close> is \<open>None\<close>.  What the code shows the user is
  returned as a list of effects.
\<close>

datatype shader_type = VERTEX_SHADER | FRAGMENT_SHADER | OTHER_SHADER_TYPE

record gl_shader =
  shader_type :: shader_type
  shader_source :: string

record gl_program =
  attached_vert :: gl_shader
  attached_frag :: gl_shader

record gl_host =
  COMPILE_STATUS :: "gl_shader \<Rightarrow> bool"
  getShaderInfoLog :: "gl_shader \<Rightarrow> string"
  LINK_STATUS :: "gl_program \<Rightarrow> bool"
  getProgramInfoLog :: "gl_program \<Rightarrow> string"

datatype effect = Alert string | ConsoleLog string

text \<open>
  The document: an element id gives the child nodes of the element, each with its
  \<open>nodeType\<close> and \<open>textContent\<close>; for an id that is not in the document
  \<open>getElementById\<close> returns \<open>null\<close> and reading \<open>childNodes\<close> of it throws.
\<close>

record dom_node =
  nodeType :: nat
  textContent :: string

type_synonym dom = "string \<Rightarrow> dom_node list option"

definition loadDOMScriptSource :: "dom \<Rightarrow> string \<Rightarrow> js_error + string" where
  "loadDOMScriptSource document elemName =
     (case document elemName of
        None \<Rightarrow> Inl TypeError
      | Some childNodes \<Rightarrow>
          Inr (fold (\<lambda>node source. if nodeType node = 3 then source @ textContent node else source)
                 childNodes []))"

definition compileShader :: "gl_host \<Rightarrow> string \<Rightarrow> shader_type \<Rightarrow> gl_shader option \<times> effect list" where
  "compileShader gl source type =
     (let shader = \<lparr>shader_type = type, shader_source = source\<rparr>
      in if \<not> COMPILE_STATUS gl shader then
           (let info = getShaderInfoLog gl shader;
                typeName = (case type of
                              VERTEX_SHADER \<Rightarrow> ''vertex''
                            | FRAGMENT_SHADER \<Rightarrow> ''fragment''
                            | OTHER_SHADER_TYPE \<Rightarrow> ''unknown'')
            in (None, [Alert (''Failed to compile '' @ typeName @ '' shader!''),
                       ConsoleLog (''Error compiling shader: '' @ info)]))
         else (Some shader, []))"

definition linkShaderProgram :: "gl_host \<Rightarrow> gl_shader \<Rightarrow> gl_shader \<Rightarrow> gl_program option \<times> effect list" where
  "linkShaderProgram gl vertShader fragShader =
     (let program = \<lparr>attached_vert = vertShader, attached_frag = fragShader\<rparr>
      in if \<not> LINK_STATUS gl program then
           (let info = getProgramInfoLog gl program
            in (None, [Alert ''Failed to link shader!'',
                       ConsoleLog (''Error linking shader: '' @ info)]))
         else (Some program, []))"

text \<open>A \<open>Shader\<close> object holds the handle it was constructed with, whatever it is.\<close>

record Shader =
  program :: "gl_program option"

definition new_Shader :: "gl_program option \<Rightarrow> Shader" where
  "new_Shader shaderProgramHandle = \<lparr>program = shaderProgramHandle\<rparr>"

text \<open>
  \<open>Shader.fromDOM\<close>.  The result is the exception thrown or the value returned
  (\<open>None\<close> for \<open>null\<close>), with the effects up to that point.
\<close>

definition fromDOM :: "gl_host \<Rightarrow> dom \<Rightarrow> string \<Rightarrow> string \<Rightarrow> (js_error + Shader option) \<times> effect list" where
  "fromDOM gl document vertElem fragElem =
     (case loadDOMScriptSource document vertElem of
        Inl e \<Rightarrow> (Inl e, [])
      | Inr vertSource \<Rightarrow>
          (let (vertShader, fx1) = compileShader gl vertSource VERTEX_SHADER
           in case loadDOMScriptSource document fragElem of
                Inl e \<Rightarrow> (Inl e, fx1)
              | Inr fragSource \<Rightarrow>
                  (let (fragShader, fx2) = compileShader gl fragSource FRAGMENT_SHADER
                   in case (vertShader, fragShader) of
                        (Some vs, Some fs) \<Rightarrow>
                          (let (handle, fx3) = linkShaderProgram gl vs fs
                           in (Inr (Some (new_Shader handle)), fx1 @ fx2 @ fx3))
                      | _ \<Rightarrow> (Inr None, fx1 @ fx2))))"

section \<open>Texture\<close>

text \<open>
  The constants of the graphics API that the texture code names, and the calls it makes
  to the host, recorded in order.  A texture handle is the number the host gave it.
\<close>

datatype gl_enum =
    GL_ZERO
  | TEXTURE_CUBE_MAP
  | TEXTURE_CUBE_MAP_NEGATIVE_X | TEXTURE_CUBE_MAP_NEGATIVE_Y | TEXTURE_CUBE_MAP_NEGATIVE_Z
  | TEXTURE_CUBE_MAP_POSITIVE_X | TEXTURE_CUBE_MAP_POSITIVE_Y | TEXTURE_CUBE_MAP_POSITIVE_Z
  | TEXTURE_MAG_FILTER | TEXTURE_MIN_FILTER | TEXTURE_WRAP_S | TEXTURE_WRAP_T
  | LINEAR | CLAMP_TO_EDGE | RGBA | UNSIGNED_BYTE

record image_extra =
  face :: gl_enum

record image =
  src :: string
  extra :: "image_extra option"

record Texture =
  texture :: nat
  textureType :: gl_enum

datatype host_call =
    createTexture nat
  | bindTexture gl_enum nat
  | texImage2D gl_enum nat gl_enum gl_enum gl_enum image
  | texParameteri gl_enum gl_enum gl_enum
  | console_log image

text \<open>
  A promise is pending, fulfilled with a value, or rejected with a reason.  Settling a
  promise that is already settled does nothing.
\<close>

datatype 'a promise = Pending | Fulfilled 'a | Rejected js_error

fun resolve :: "'a promise \<Rightarrow> 'a \<Rightarrow> 'a promise" where
  "resolve Pending v = Fulfilled v"
| "resolve p v = p"

fun is_fulfilled :: "'a promise \<Rightarrow> bool" where
  "is_fulfilled (Fulfilled v) = True"
| "is_fulfilled _ = False"

fun promise_value :: "'a promise \<Rightarrow> 'a option" where
  "promise_value (Fulfilled v) = Some v"
| "promise_value _ = None"

text \<open>
  \<open>Texture.imageFromUrl\<close> creates an image, gives it the url and the extra data, and
  returns a pending promise.  The only handler it installs is \<open>onload\<close>, which resolves
  the promise with the image; the executor never calls \<open>reject\<close>.  An image whose load
  fails gets an error event, for which there is no handler.
\<close>

record image_load =
  loading :: image
  loaded :: "image promise"

definition imageFromUrl :: "string \<Rightarrow> image_extra option \<Rightarrow> image_load" where
  "imageFromUrl url ext = \<lparr>loading = \<lparr>src = url, extra = ext\<rparr>, loaded = Pending\<rparr>"

definition image_onload :: "image_load \<Rightarrow> image_load" where
  "image_onload l = l\<lparr>loaded := resolve (loaded l) (loading l)\<rparr>"

definition image_onerror :: "image_load \<Rightarrow> image_load" where
  "image_onerror l = l"

text \<open>
  \<open>Texture.cubemapFromUrl\<close>: the six loads in the order they are pushed, the promise
  returned, the calls made to the host so far, and the next handle the host will give.
\<close>

record cubemap =
  promises :: "image_load list"
  returned :: "Texture promise"
  host_calls :: "host_call list"
  next_handle :: nat

definition cubemapFromUrl ::
  "nat \<Rightarrow> string \<Rightarrow> string \<Rightarrow> string \<Rightarrow> string \<Rightarrow> string \<Rightarrow> string \<Rightarrow> cubemap" where
  "cubemapFromUrl handle negX negY negZ posX posY posZ =
     \<lparr>promises =
        [imageFromUrl negX (Some \<lparr>face = TEXTURE_CUBE_MAP_NEGATIVE_X\<rparr>),
         imageFromUrl negY (Some \<lparr>face = TEXTURE_CUBE_MAP_NEGATIVE_Y\<rparr>),
         imageFromUrl negZ (Some \<lparr>face = TEXTURE_CUBE_MAP_NEGATIVE_Z\<rparr>),
         imageFromUrl posX (Some \<lparr>face = TEXTURE_CUBE_MAP_POSITIVE_X\<rparr>),
         imageFromUrl posY (Some \<lparr>face = TEXTURE_CUBE_MAP_POSITIVE_Y\<rparr>),
         imageFromUrl posZ (Some \<lparr>face = TEXTURE_CUBE_MAP_POSITIVE_Z\<rparr>)],
      returned = Pending, host_calls = [], next_handle = handle\<rparr>"

text \<open>
  The loop of the callback over \<open>values\<close>: each image is logged and uploaded to the face
  in its extra data.  Reading \<open>face\<close> of a missing \<open>extra\<close> would throw; the calls made up
  to then stay made, and the flag says whether the loop ran to its end.
\<close>

fun upload_faces :: "image list \<Rightarrow> host_call list \<times> bool" where
  "upload_faces [] = ([], True)"
| "upload_faces (v # vs) =
     (case extra v of
        None \<Rightarrow> ([console_log v], False)
      | Some e \<Rightarrow>
          (let (calls, done) = upload_faces vs
           in (console_log v # texImage2D (face e) 0 RGBA RGBA UNSIGNED_BYTE v # calls, done)))"

text \<open>
  The callback given to \<open>Promise.all(promises).then\<close>, run with the values of the six
  promises in the order of the array.  If it throws, \<open>resolve(tex)\<close> is not reached and
  the promise returned stays as it is.
\<close>

definition all_loaded_callback :: "image list \<Rightarrow> cubemap \<Rightarrow> cubemap" where
  "all_loaded_callback values c =
     (let tex = \<lparr>texture = next_handle c, textureType = GL_ZERO\<rparr>;
          tex1 = tex\<lparr>textureType := TEXTURE_CUBE_MAP\<rparr>;
          (uploads, done) = upload_faces values;
          calls = [createTexture (texture tex), bindTexture TEXTURE_CUBE_MAP (texture tex1)] @ uploads
      in if done then
           c\<lparr>host_calls := host_calls c @ calls @
                  [texParameteri TEXTURE_CUBE_MAP TEXTURE_MAG_FILTER LINEAR,
                   texParameteri TEXTURE_CUBE_MAP TEXTURE_MIN_FILTER LINEAR,
                   texParameteri TEXTURE_CUBE_MAP TEXTURE_WRAP_S CLAMP_TO_EDGE,
                   texParameteri TEXTURE_CUBE_MAP TEXTURE_WRAP_T CLAMP_TO_EDGE],
              next_handle := next_handle c + 1,
              returned := resolve (returned c) tex1\<rparr>
         else c\<lparr>host_calls := host_calls c @ calls, next_handle := next_handle c + 1\<rparr>)"

text \<open>
  What the browser does to a cube map under way: image \<open>k\<close> finishes loading, or its
  load fails.  \<open>Promise.all\<close> is fulfilled, with the values in the order of its
  argument, at the event that fulfils the last pending promise; its callback runs
  then, before any other event.
\<close>

datatype browser_event = ImageLoaded nat | ImageFailed nat

fun cubemap_event :: "browser_event \<Rightarrow> cubemap \<Rightarrow> cubemap" where
  "cubemap_event (ImageFailed k) c =
     (if k < length (promises c)
      then c\<lparr>promises := (promises c)[k := image_onerror (promises c ! k)]\<rparr> else c)"
| "cubemap_event (ImageLoaded k) c =
     (if k < length (promises c) then
        (let ps = (promises c)[k := image_onload (promises c ! k)];
             c1 = c\<lparr>promises := ps\<rparr>
         in if (\<exists>l \<in> set (promises c). \<not> is_fulfilled (loaded l))
               \<and> (\<forall>l \<in> set ps. is_fulfilled (loaded l))
            then all_loaded_callback (map loading ps) c1
            else c1)
      else c)"

definition cubemap_run :: "browser_event list \<Rightarrow> cubemap \<Rightarrow> cubemap" where
  "cubemap_run evs c = fold cubemap_event evs c"

text \<open>The uploads among the calls made to the host: the face and the image of each.\<close>

fun uploads_of :: "host_call list \<Rightarrow> (gl_enum \<times> image) list" where
  "uploads_of [] = []"
| "uploads_of (texImage2D f lvl ifmt fmt ty i # cs) = (f, i) # uploads_of cs"
| "uploads_of (_ # cs) = uploads_of cs"

text \<open>The events of a single image, for a promise of \<open>imageFromUrl\<close> on its own.\<close>

datatype image_event = LoadEvent | ErrorEvent

fun image_dispatch :: "image_event \<Rightarrow> image_load \<Rightarrow> image_load" where
  "image_dispatch LoadEvent l = image_onload l"
| "image_dispatch ErrorEvent l = image_onerror l"

section \<open>Camera\<close>

subsection \<open>The glMatrix operations used by the camera\<close>

text \<open>
  The camera computes with finite numbers only; they are modelled by the reals, with
  exact arithmetic.  The glMatrix functions are written as the library defines them:
  each reads its arguments and then writes its result.  A \<open>mat4\<close> is column-major, the
  sixteen entries in the order of the array.
\<close>

type_synonym rvec3 = "real \<times> real \<times> real"
type_synonym rquat = "real \<times> real \<times> real \<times> real"

datatype mat4 =
  Mat4 real real real real  real real real real  real real real real  real real real real

definition rvec3_create :: rvec3 where
  "rvec3_create = (0, 0, 0)"

fun rvec3_add :: "rvec3 \<Rightarrow> rvec3 \<Rightarrow> rvec3" where
  "rvec3_add (a0, a1, a2) (b0, b1, b2) = (a0 + b0, a1 + b1, a2 + b2)"

fun rvec3_subtract :: "rvec3 \<Rightarrow> rvec3 \<Rightarrow> rvec3" where
  "rvec3_subtract (a0, a1, a2) (b0, b1, b2) = (a0 - b0, a1 - b1, a2 - b2)"

fun rvec3_transformQuat :: "rvec3 \<Rightarrow> rquat \<Rightarrow> rvec3" where
  "rvec3_transformQuat (x, y, z) (qx, qy, qz, qw) =
     (let uvx = qy * z - qz * y; uvy = qz * x - qx * z; uvz = qx * y - qy * x;
          uuvx = qy * uvz - qz * uvy; uuvy = qz * uvx - qx * uvz; uuvz = qx * uvy - qy * uvx;
          w2 = qw * 2
      in (x + uvx * w2 + uuvx * 2, y + uvy * w2 + uuvy * 2, z + uvz * w2 + uuvz * 2))"

definition quat_create :: rquat where
  "quat_create = (0, 0, 0, 1)"

fun quat_conjugate :: "rquat \<Rightarrow> rquat" where
  "quat_conjugate (x, y, z, w) = (- x, - y, - z, w)"

fun quat_multiply :: "rquat \<Rightarrow> rquat \<Rightarrow> rquat" where
  "quat_multiply (ax, ay, az, aw) (bx, by, bz, bw) =
     (ax * bw + aw * bx + ay * bz - az * by,
      ay * bw + aw * by + az * bx - ax * bz,
      az * bw + aw * bz + ax * by - ay * bx,
      aw * bw - ax * bx - ay * by - az * bz)"

fun quat_setAxisAngle :: "rvec3 \<Rightarrow> real \<Rightarrow> rquat" where
  "quat_setAxisAngle (x, y, z) rad =
     (let s = sin (rad * 0.5) in (s * x, s * y, s * z, cos (rad * 0.5)))"

fun quat_rotateX :: "rquat \<Rightarrow> real \<Rightarrow> rquat" where
  "quat_rotateX (ax, ay, az, aw) rad =
     (let bx = sin (rad * 0.5); bw = cos (rad * 0.5)
      in (ax * bw + aw * bx, ay * bw + az * bx, az * bw - ay * bx, aw * bw - ax * bx))"

fun quat_rotateY :: "rquat \<Rightarrow> real \<Rightarrow> rquat" where
  "quat_rotateY (ax, ay, az, aw) rad =
     (let by = sin (rad * 0.5); bw = cos (rad * 0.5)
      in (ax * bw - az * by, ay * bw + aw * by, az * bw + ax * by, aw * bw - ay * by))"

fun quat_rotateZ :: "rquat \<Rightarrow> real \<Rightarrow> rquat" where
  "quat_rotateZ (ax, ay, az, aw) rad =
     (let bz = sin (rad * 0.5); bw = cos (rad * 0.5)
      in (ax * bw + ay * bz, ay * bw - ax * bz, az * bw + aw * bz, aw * bw - az * bz))"

definition mat4_create :: mat4 where
  "mat4_create = Mat4 1 0 0 0  0 1 0 0  0 0 1 0  0 0 0 1"

fun mat4_fromQuat :: "rquat \<Rightarrow> mat4" where
  "mat4_fromQuat (x, y, z, w) =
     (let x2 = x + x; y2 = y + y; z2 = z + z;
          xx = x * x2; yx = y * x2; yy = y * y2;
          zx = z * x2; zy = z * y2; zz = z * z2;
          wx = w * x2; wy = w * y2; wz = w * z2
      in Mat4 (1 - yy - zz) (yx + wz) (zx - wy) 0
              (yx - wz) (1 - xx - zz) (zy + wx) 0
              (zx + wy) (zy - wx) (1 - xx - yy) 0
              0 0 0 1)"

fun mat4_fromTranslation :: "rvec3 \<Rightarrow> mat4" where
  "mat4_fromTranslation (v0, v1, v2) = Mat4 1 0 0 0  0 1 0 0  0 0 1 0  v0 v1 v2 1"

fun mat4_multiply :: "mat4 \<Rightarrow> mat4 \<Rightarrow> mat4" where
  "mat4_multiply (Mat4 a00 a01 a02 a03 a10 a11 a12 a13 a20 a21 a22 a23 a30 a31 a32 a33)
                 (Mat4 b00 b01 b02 b03 b10 b11 b12 b13 b20 b21 b22 b23 b30 b31 b32 b33) =
     Mat4 (b00 * a00 + b01 * a10 + b02 * a20 + b03 * a30)
          (b00 * a01 + b01 * a11 + b02 * a21 + b03 * a31)
          (b00 * a02 + b01 * a12 + b02 * a22 + b03 * a32)
          (b00 * a03 + b01 * a13 + b02 * a23 + b03 * a33)
          (b10 * a00 + b11 * a10 + b12 * a20 + b13 * a30)
          (b10 * a01 + b11 * a11 + b12 * a21 + b13 * a31)
          (b10 * a02 + b11 * a12 + b12 * a22 + b13 * a32)
          (b10 * a03 + b11 * a13 + b12 * a23 + b13 * a33)
          (b20 * a00 + b21 * a10 + b22 * a20 + b23 * a30)
          (b20 * a01 + b21 * a11 + b22 * a21 + b23 * a31)
          (b20 * a02 + b21 * a12 + b22 * a22 + b23 * a32)
          (b20 * a03 + b21 * a13 + b22 * a23 + b23 * a33)
          (b30 * a00 + b31 * a10 + b32 * a20 + b33 * a30)
          (b30 * a01 + b31 * a11 + b32 * a21 + b33 * a31)
          (b30 * a02 + b31 * a12 + b32 * a22 + b33 * a32)
          (b30 * a03 + b31 * a13 + b32 * a23 + b33 * a33)"

definition glMatrix_EPSILON :: real where
  "glMatrix_EPSILON = 0.000001"

definition hypot3 :: "real \<Rightarrow> real \<Rightarrow> real \<Rightarrow> real" where
  "hypot3 x y z = sqrt (x * x + y * y + z * z)"

fun mat4_lookAt :: "rvec3 \<Rightarrow> rvec3 \<Rightarrow> rvec3 \<Rightarrow> mat4" where
  "mat4_lookAt (eyex, eyey, eyez) (centerx, centery, centerz) (upx, upy, upz) =
     (if \<bar>eyex - centerx\<bar> < glMatrix_EPSILON \<and> \<bar>eyey - centery\<bar> < glMatrix_EPSILON
          \<and> \<bar>eyez - centerz\<bar> < glMatrix_EPSILON
      then mat4_create
      else
        (let zl = 1 / hypot3 (eyex - centerx) (eyey - centery) (eyez - centerz);
             z0 = (eyex - centerx) * zl; z1 = (eyey - centery) * zl; z2 = (eyez - centerz) * zl;
             xa = upy * z2 - upz * z1; xb = upz * z0 - upx * z2; xc = upx * z1 - upy * z0;
             xl = hypot3 xa xb xc;
             x0 = (if xl = 0 then 0 else xa * (1 / xl));
             x1 = (if xl = 0 then 0 else xb * (1 / xl));
             x2 = (if xl = 0 then 0 else xc * (1 / xl));
             ya = z1 * x2 - z2 * x1; yb = z2 * x0 - z0 * x2; yc = z0 * x1 - z1 * x0;
             yl = hypot3 ya yb yc;
             y0 = (if yl = 0 then 0 else ya * (1 / yl));
             y1 = (if yl = 0 then 0 else yb * (1 / yl));
             y2 = (if yl = 0 then 0 else yc * (1 / yl))
         in Mat4 x0 y0 z0 0
                 x1 y1 z1 0
                 x2 y2 z2 0
                 (- (x0 * eyex + x1 * eyey + x2 * eyez))
                 (- (y0 * eyex + y1 * eyey + y2 * eyez))
                 (- (z0 * eyex + z1 * eyey + z2 * eyez))
                 1))"

subsection \<open>Objects and the camera\<close>

text \<open>
  Vectors, quaternions and matrices are objects: the camera holds references to them,
  and \<open>getViewMatrix\<close> writes into an object of its caller.  The store gives the
  contents of every object, by kind, and the next free reference.  An object made
  inside a method that does not leave it (\<open>rot\<close>, \<open>trans\<close>, \<open>conj\<close>, \<open>rotQuat\<close>) is a
  value of the method.
\<close>

type_synonym ref = nat

record store =
  vec3s :: "ref \<Rightarrow> rvec3"
  quats :: "ref \<Rightarrow> rquat"
  mat4s :: "ref \<Rightarrow> mat4"
  next_ref :: ref

definition new_vec3 :: "rvec3 \<Rightarrow> store \<Rightarrow> ref \<times> store" where
  "new_vec3 v s = (next_ref s, s\<lparr>vec3s := (vec3s s)(next_ref s := v), next_ref := next_ref s + 1\<rparr>)"

definition new_quat :: "rquat \<Rightarrow> store \<Rightarrow> ref \<times> store" where
  "new_quat q s = (next_ref s, s\<lparr>quats := (quats s)(next_ref s := q), next_ref := next_ref s + 1\<rparr>)"

definition new_mat4 :: "mat4 \<Rightarrow> store \<Rightarrow> ref \<times> store" where
  "new_mat4 m s = (next_ref s, s\<lparr>mat4s := (mat4s s)(next_ref s := m), next_ref := next_ref s + 1\<rparr>)"

definition set_vec3 :: "ref \<Rightarrow> rvec3 \<Rightarrow> store \<Rightarrow> store" where
  "set_vec3 r v s = s\<lparr>vec3s := (vec3s s)(r := v)\<rparr>"

definition set_quat :: "ref \<Rightarrow> rquat \<Rightarrow> store \<Rightarrow> store" where
  "set_quat r q s = s\<lparr>quats := (quats s)(r := q)\<rparr>"

definition set_mat4 :: "ref \<Rightarrow> mat4 \<Rightarrow> store \<Rightarrow> store" where
  "set_mat4 r m s = s\<lparr>mat4s := (mat4s s)(r := m)\<rparr>"

record camera =
  eyePoint :: ref
  up :: ref
  viewPoint :: ref
  translation :: ref
  rotation :: ref
  lookDirection :: ref
  lookAtMatrix :: ref

text \<open>
  The constructor.  \<open>origin\<close> is cloned; \<open>lookDirection\<close> is kept as the reference
  given.
\<close>

definition new_Camera :: "ref \<Rightarrow> ref \<Rightarrow> store \<Rightarrow> camera \<times> store" where
  "new_Camera origin lookDir s =
     (let (eyeRef, s1) = new_vec3 (vec3s s origin) s;
          (upRef, s2) = new_vec3 (0, 1, 0) s1;
          (viewRef, s3) = new_vec3 rvec3_create s2;
          s4 = set_vec3 viewRef (rvec3_add (vec3s s3 eyeRef) (vec3s s3 lookDir)) s3;
          (transRef, s5) = new_vec3 rvec3_create s4;
          (rotRef, s6) = new_quat quat_create s5;
          (lookAtRef, s7) = new_mat4 mat4_create s6;
          s8 = set_mat4 lookAtRef
                 (mat4_lookAt (vec3s s7 eyeRef) (vec3s s7 viewRef) (vec3s s7 upRef)) s7
      in (\<lparr>eyePoint = eyeRef, up = upRef, viewPoint = viewRef, translation = transRef,
           rotation = rotRef, lookDirection = lookDir, lookAtMatrix = lookAtRef\<rparr>, s8))"

definition getViewMatrix :: "camera \<Rightarrow> ref \<Rightarrow> store \<Rightarrow> store" where
  "getViewMatrix this outMatrix s =
     (let rot = mat4_fromQuat (quats s (rotation this));
          trans = mat4_fromTranslation (vec3s s (translation this));
          s1 = set_mat4 outMatrix (mat4_multiply rot trans) s
      in set_mat4 outMatrix (mat4_multiply (mat4s s1 outMatrix) (mat4s s1 (lookAtMatrix this))) s1)"

text \<open>\<open>getLocalVector\<close> returns a new vector and writes to no object that exists.\<close>

definition getLocalVector :: "camera \<Rightarrow> real \<Rightarrow> real \<Rightarrow> real \<Rightarrow> store \<Rightarrow> rvec3" where
  "getLocalVector this x y z s =
     (let conj = quat_conjugate (quats s (rotation this))
      in rvec3_transformQuat (x, y, z) conj)"

text \<open>
  \<open>degToRad\<close> is a function of the repository that the sources at hand do not define;
  the rotations take it as a parameter.
\<close>

definition rotateX :: "(real \<Rightarrow> real) \<Rightarrow> camera \<Rightarrow> real \<Rightarrow> store \<Rightarrow> store" where
  "rotateX degToRad this degrees s =
     set_quat (rotation this) (quat_rotateX (quats s (rotation this)) (- degToRad degrees)) s"

definition rotateY :: "(real \<Rightarrow> real) \<Rightarrow> camera \<Rightarrow> real \<Rightarrow> store \<Rightarrow> store" where
  "rotateY degToRad this degrees s =
     set_quat (rotation this) (quat_rotateY (quats s (rotation this)) (- degToRad degrees)) s"

definition rotateZ :: "(real \<Rightarrow> real) \<Rightarrow> camera \<Rightarrow> real \<Rightarrow> store \<Rightarrow> store" where
  "rotateZ degToRad this degrees s =
     set_quat (rotation this) (quat_rotateZ (quats s (rotation this)) (- degToRad degrees)) s"

definition rotateLocalX :: "(real \<Rightarrow> real) \<Rightarrow> camera \<Rightarrow> real \<Rightarrow> store \<Rightarrow> store" where
  "rotateLocalX degToRad this degrees s =
     (let rotQuat = quat_setAxisAngle (getLocalVector this 1 0 0 s) (- degToRad degrees)
      in set_quat (rotation this) (quat_multiply (quats s (rotation this)) rotQuat) s)"

definition rotateLocalY :: "(real \<Rightarrow> real) \<Rightarrow> camera \<Rightarrow> real \<Rightarrow> store \<Rightarrow> store" where
  "rotateLocalY degToRad this degrees s =
     (let rotQuat = quat_setAxisAngle (getLocalVector this 0 1 0 s) (- degToRad degrees)
      in set_quat (rotation this) (quat_multiply (quats s (rotation this)) rotQuat) s)"

definition rotateLocalZ :: "(real \<Rightarrow> real) \<Rightarrow> camera \<Rightarrow> real \<Rightarrow> store \<Rightarrow> store" where
  "rotateLocalZ degToRad this degrees s =
     (let rotQuat = quat_setAxisAngle (getLocalVector this 0 0 1 s) (- degToRad degrees)
      in set_quat (rotation this) (quat_multiply (quats s (rotation this)) rotQuat) s)"

definition setWorldPos :: "camera \<Rightarrow> real \<Rightarrow> real \<Rightarrow> real \<Rightarrow> store \<Rightarrow> store" where
  "setWorldPos this x y z s = set_vec3 (translation this) (x, y, z) s"

definition translate :: "camera \<Rightarrow> real \<Rightarrow> real \<Rightarrow> real \<Rightarrow> store \<Rightarrow> store" where
  "translate this x y z s =
     set_vec3 (translation this) (rvec3_subtract (vec3s s (translation this)) (x, y, z)) s"

definition translateLocal :: "camera \<Rightarrow> real \<Rightarrow> real \<Rightarrow> real \<Rightarrow> store \<Rightarrow> store" where
  "translateLocal this x y z s =
     (let conj = quat_conjugate (quats s (rotation this));
          amt = rvec3_transformQuat (x, y, z) conj
      in set_vec3 (translation this) (rvec3_subtract (vec3s s (translation this)) amt) s)"

text \<open>A call of a method of the camera, and a sequence of calls run in order.\<close>

datatype camera_call =
    RotateX real | RotateY real | RotateZ real
  | RotateLocalX real | RotateLocalY real | RotateLocalZ real
  | SetWorldPos real real real | Translate real real real | TranslateLocal real real real
  | GetViewMatrix ref | GetLocalVector real real real

fun camera_do :: "(real \<Rightarrow> real) \<Rightarrow> camera \<Rightarrow> camera_call \<Rightarrow> store \<Rightarrow> store" where
  "camera_do degToRad this (RotateX d) s = rotateX degToRad this d s"
| "camera_do degToRad this (RotateY d) s = rotateY degToRad this d s"
| "camera_do degToRad this (RotateZ d) s = rotateZ degToRad this d s"
| "camera_do degToRad this (RotateLocalX d) s = rotateLocalX degToRad this d s"
| "camera_do degToRad this (RotateLocalY d) s = rotateLocalY degToRad this d s"
| "camera_do degToRad this (RotateLocalZ d) s = rotateLocalZ degToRad this d s"
| "camera_do degToRad this (SetWorldPos x y z) s = setWorldPos this x y z s"
| "camera_do degToRad this (Translate x y z) s = translate this x y z s"
| "camera_do degToRad this (TranslateLocal x y z) s = translateLocal this x y z s"
| "camera_do degToRad this (GetViewMatrix outMatrix) s = getViewMatrix this outMatrix s"
| "camera_do degToRad this (GetLocalVector x y z) s = s"

definition camera_run :: "(real \<Rightarrow> real) \<Rightarrow> camera \<Rightarrow> camera_call list \<Rightarrow> store \<Rightarrow> store" where
  "camera_run degToRad this calls s = fold (camera_do degToRad this) calls s"

section \<open>Properties of the mesh\<close>

subsection \<open>Reading an array at a natural number\<close>

lemma js_index_nat: "js_index xs (Num (real i)) = (if i < length xs then Some (xs ! i) else None)"
  by simp

subsection \<open>What the stages leave alone\<close>

lemma computeAABB_frame [simp]:
  "vertices (computeAABB m) = vertices m"
  "faces (computeAABB m) = faces m"
  "numVertices (computeAABB m) = numVertices m"
  "numFaces (computeAABB m) = numFaces m"
  "normals (computeAABB m) = normals m"
  by (simp_all add: computeAABB_def split: prod.splits)

lemma generateNormals_frame [simp]:
  "vertices (generateNormals m) = vertices m"
  "faces (generateNormals m) = faces m"
  "numVertices (generateNormals m) = numVertices m"
  "numFaces (generateNormals m) = numFaces m"
  "minXYZ (generateNormals m) = minXYZ m"
  "maxXYZ (generateNormals m) = maxXYZ m"
  by (simp_all add: generateNormals_def Let_def)

subsection \<open>Bounding box\<close>

text \<open>
  The true bounding box of a vertex list, from the words of the specification: on each
  axis the least and the greatest coordinate of the vertices.  It is only used to
  compare \<open>computeAABB\<close> with.
\<close>

definition spec_axis_coords :: "jsnum list \<Rightarrow> nat \<Rightarrow> jsnum list" where
  "spec_axis_coords vs j = map (\<lambda>q. vs ! (3 * q + j)) [0..<length vs div 3]"

definition spec_true_min :: "jsnum list \<Rightarrow> nat \<Rightarrow> jsnum" where
  "spec_true_min vs j =
     (let cs = spec_axis_coords vs j in fold (\<lambda>v m. if js_lt v m then v else m) (tl cs) (hd cs))"

definition spec_true_max :: "jsnum list \<Rightarrow> nat \<Rightarrow> jsnum" where
  "spec_true_max vs j =
     (let cs = spec_axis_coords vs j in fold (\<lambda>v m. if js_gt v m then v else m) (tl cs) (hd cs))"

text \<open>
  C1.  After \<open>computeAABB\<close> the stored \<open>minXYZ\<close> and \<open>maxXYZ\<close> should be the
  coordinate-wise minimum and maximum of the vertices.  The boxes start at
  \<open>[0, 0, 0]\<close> and are only ever lowered or raised, so the origin is always inside the
  stored box.  For the three vertices \<open>(1, 2, 3)\<close>, \<open>(4, 5, 6)\<close>, \<open>(7, 8, 9)\<close> the true
  minimum is \<open>(1, 2, 3)\<close> and the stored one is \<open>(0, 0, 0)\<close>.
\<close>

theorem computeAABB_keeps_origin:
  "minXYZ (computeAABB (new_Mesh\<lparr>vertices := map Num [1, 2, 3, 4, 5, 6, 7, 8, 9]\<rparr>))
     = [Num 0, Num 0, Num 0]
   \<and> map (spec_true_min (map Num [1, 2, 3, 4, 5, 6, 7, 8, 9])) [0, 1, 2] = [Num 1, Num 2, Num 3]
   \<and> maxXYZ (computeAABB (new_Mesh\<lparr>vertices := map Num [1, 2, 3, 4, 5, 6, 7, 8, 9]\<rparr>))
     = [Num 7, Num 8, Num 9]
   \<and> map (spec_true_max (map Num [1, 2, 3, 4, 5, 6, 7, 8, 9])) [0, 1, 2] = [Num 7, Num 8, Num 9]"
  by (simp add: computeAABB_def new_Mesh_def aabb_inner_def js_gt_def aabb_outer.simps
      spec_true_min_def spec_true_max_def spec_axis_coords_def upt_rec)

subsection \<open>Vertex normals\<close>







lemma js_get_new_Array: "js_get (new_Array n) q = None"
  by (simp add: js_get_def new_Array_def)







text \<open>
  A face index as the constructors produce it: an integer (of any sign), or NaN where
  \<open>parseInt\<close> found no number or the face list was too short.
\<close>

definition integer_or_NaN :: "jsnum \<Rightarrow> bool" where
  "integer_or_NaN v \<longleftrightarrow> v = NaN \<or> (\<exists>z::int. v = Num (of_int z))"

lemma integer_or_NaN_nat: "integer_or_NaN (Num (real k))"
  unfolding integer_or_NaN_def by (intro disjI2 exI [of _ "int k"]) simp























subsection \<open>What \<open>fromObj\<close> reads\<close>

lemma obj_loop_fold: "obj_loop lines i mesh = Inr (fold parse_line (drop i lines) mesh)"
proof (induction lines i mesh rule: obj_loop.induct)
  case (1 lines i mesh)
  show ?case
  proof (cases "i < length lines")
    case True
    then have d: "drop i lines = lines ! i # drop (i + 1) lines"
      by (simp add: Cons_nth_drop_Suc)
    have r: "js_index lines (Num (real i)) = Some (lines ! i)"
      using True by (simp only: js_index_nat if_True)
    show ?thesis
      using True "1.IH" [OF True r]
      by (subst obj_loop.simps) (simp only: r d if_True option.case fold_simps)
  next
    case False
    then show ?thesis
      by (subst obj_loop.simps) simp
  qed
qed

text \<open>
  The tests of the loop body, named: a comment line starts with \<open>#\<close>; otherwise the
  first piece of the line decides.  A vertex line contributes the three numbers that
  \<open>parseFloat\<close> reads from pieces 1 to 3, a face line the three numbers that \<open>parseInt\<close>
  reads from them, less one.
\<close>

definition is_comment_line :: "string \<Rightarrow> bool" where
  "is_comment_line line \<longleftrightarrow> js_index line (Num 0) = Some CHR ''#''"

definition first_token :: "string \<Rightarrow> string option" where
  "first_token line = js_index (split_spaces line) (Num 0)"

definition is_vertex_line :: "string \<Rightarrow> bool" where
  "is_vertex_line line \<longleftrightarrow> \<not> is_comment_line line \<and> first_token line = Some ''v''"

definition is_face_line :: "string \<Rightarrow> bool" where
  "is_face_line line \<longleftrightarrow> \<not> is_comment_line line \<and> first_token line = Some ''f''"

definition token :: "string \<Rightarrow> nat \<Rightarrow> string option" where
  "token line i = js_index (split_spaces line) (Num (real i))"

definition vertex_entries :: "string \<Rightarrow> jsnum list" where
  "vertex_entries line = map (\<lambda>i. parseFloat (token line i)) [1, 2, 3]"

definition face_entries :: "string \<Rightarrow> jsnum list" where
  "face_entries line = map (\<lambda>i. js_sub (parseInt (token line i)) (Num 1)) [1, 2, 3]"

lemma parse_line_cases:
  "parse_line line mesh =
     (if is_vertex_line line then mesh\<lparr>vertices := vertices mesh @ vertex_entries line\<rparr>
      else if is_face_line line then mesh\<lparr>faces := faces mesh @ face_entries line\<rparr>
      else mesh)"
  by (simp add: parse_line_def is_vertex_line_def is_face_line_def is_comment_line_def
      first_token_def token_def vertex_entries_def face_entries_def Let_def)


lemma fold_parse_line:
  "vertices (fold parse_line ls mesh)
     = vertices mesh @ concat (map vertex_entries (filter is_vertex_line ls))"
  "faces (fold parse_line ls mesh)
     = faces mesh @ concat (map face_entries (filter is_face_line ls))"
  by (induction ls arbitrary: mesh) (simp_all add: parse_line_cases is_vertex_line_def is_face_line_def)

lemma fromObj_result:
  "\<exists>m. fromObj fileText = Inr m
     \<and> vertices m = concat (map vertex_entries (filter is_vertex_line (split_lines fileText)))
     \<and> faces m = concat (map face_entries (filter is_face_line (split_lines fileText)))
     \<and> numVertices m = length (vertices m) div 3
     \<and> numFaces m = length (faces m) div 3"
  by (simp add: fromObj_def obj_loop_fold Let_def fold_parse_line new_Mesh_def)

lemma length_entries [simp]: "length (vertex_entries l) = 3" "length (face_entries l) = 3"
  by (simp_all add: vertex_entries_def face_entries_def)

lemma length_concat_triples:
  "(\<And>x. length (f x) = 3) \<Longrightarrow> length (concat (map f ls)) = 3 * length ls"
  by (induction ls) simp_all


text \<open>
  An OBJ text block as the specification describes it: vertex lines \<open>v x y z\<close>, face
  lines \<open>f a b c\<close> with the indices in decimal, comment lines, and empty lines (a final
  line feed gives one).  The coordinates of a vertex line and the text of a comment are
  any strings without a line feed.  \<open>join_lines\<close> puts a line feed between the lines.
\<close>

datatype obj_line = VLine string string string | FLine nat nat nat | CommentLine string | BlankLine

definition digit_char :: "nat \<Rightarrow> char" where
  "digit_char d = ''0123456789'' ! d"

function decimal :: "nat \<Rightarrow> string" where
  "decimal n = (if n < 10 then [digit_char n] else decimal (n div 10) @ [digit_char (n mod 10)])"
  by pat_completeness auto
termination
  by (relation "measure id") auto

declare decimal.simps [simp del]

fun render_line :: "obj_line \<Rightarrow> string" where
  "render_line (VLine x y z) = ''v '' @ x @ '' '' @ y @ '' '' @ z"
| "render_line (FLine a b c) = ''f '' @ decimal a @ '' '' @ decimal b @ '' '' @ decimal c"
| "render_line (CommentLine s) = ''#'' @ s"
| "render_line BlankLine = []"

fun join_lines :: "string list \<Rightarrow> string" where
  "join_lines [] = []"
| "join_lines [l] = l"
| "join_lines (l # ls) = l @ [CHR 0x0A] @ join_lines ls"

fun wf_obj_line :: "obj_line \<Rightarrow> bool" where
  "wf_obj_line (VLine x y z) \<longleftrightarrow> CHR 0x0A \<notin> set (x @ y @ z)"
| "wf_obj_line (FLine a b c) \<longleftrightarrow> True"
| "wf_obj_line (CommentLine s) \<longleftrightarrow> CHR 0x0A \<notin> set s"
| "wf_obj_line BlankLine \<longleftrightarrow> True"

fun is_VLine :: "obj_line \<Rightarrow> bool" where
  "is_VLine (VLine x y z) = True"
| "is_VLine _ = False"

fun is_FLine :: "obj_line \<Rightarrow> bool" where
  "is_FLine (FLine a b c) = True"
| "is_FLine _ = False"

fun face_indices :: "obj_line \<Rightarrow> jsnum list" where
  "face_indices (FLine a b c) = [Num (real a - 1), Num (real b - 1), Num (real c - 1)]"
| "face_indices _ = []"

lemma digit_char_cases:
  fixes d :: nat
  assumes "d < 10"
  shows "d = 0 \<or> d = 1 \<or> d = 2 \<or> d = 3 \<or> d = 4 \<or> d = 5 \<or> d = 6 \<or> d = 7 \<or> d = 8 \<or> d = 9"
  using assms by arith

lemma hex_digit_digit_char:
  assumes "d < 10"
  shows "hex_digit (digit_char d) = Some d"
  using digit_char_cases [OF assms]
  by (elim disjE) (simp_all add: hex_digit_def digit_char_def)

lemma digit_char_not_special:
  assumes "d < 10"
  shows "digit_char d \<noteq> CHR '' ''" "digit_char d \<noteq> CHR 0x0A" "digit_char d \<noteq> CHR ''-''"
    "digit_char d \<noteq> CHR ''+''" "digit_char d \<noteq> CHR ''x''" "digit_char d \<noteq> CHR ''X''"
    "\<not> js_whitespace (digit_char d)" "digit_char d \<noteq> CHR ''#''"
  using digit_char_cases [OF assms]
  by (auto simp: digit_char_def js_whitespace_def)

lemma is_digit_digit_char: "d < 10 \<Longrightarrow> is_digit 10 (digit_char d)"
  by (simp add: is_digit_def hex_digit_digit_char)

lemma decimal_digits: "c \<in> set (decimal n) \<Longrightarrow> \<exists>d<10. c = digit_char d"
proof (induction n rule: decimal.induct)
  case (1 n)
  show ?case
  proof (cases "n < 10")
    case True
    then show ?thesis using "1.prems" by (subst (asm) decimal.simps) auto
  next
    case False
    have m: "n mod 10 < 10" by simp
    have "c \<in> set (decimal (n div 10)) \<or> c = digit_char (n mod 10)"
      using "1.prems" False by (subst (asm) decimal.simps) auto
    then show ?thesis
      using "1.IH" [OF False] m by blast
  qed
qed

lemma decimal_nonempty: "decimal n \<noteq> []"
  by (subst decimal.simps) simp

lemma digits_value_snoc:
  "digits_value r (ds @ [c]) = r * digits_value r ds + the (hex_digit c)"
  by (simp add: digits_value_def)

lemma digits_value_decimal: "digits_value 10 (decimal n) = n"
proof (induction n rule: decimal.induct)
  case (1 n)
  show ?case
  proof (cases "n < 10")
    case True
    then show ?thesis
      by (subst decimal.simps) (simp add: digits_value_def hex_digit_digit_char)
  next
    case False
    have m: "n mod 10 < 10" by simp
    show ?thesis
      using "1.IH" [OF False] False
      by (subst decimal.simps) (simp add: digits_value_snoc hex_digit_digit_char [OF m])
  qed
qed

lemma parseInt_decimal: "parseInt (Some (decimal n)) = Num (real n)"
proof -
  obtain c cs where d: "decimal n = c # cs"
    using decimal_nonempty [of n] by (cases "decimal n") auto
  have all: "\<forall>x \<in> set (decimal n). \<exists>k<10. x = digit_char k"
    using decimal_digits by blast
  obtain k where k: "k < 10" "c = digit_char k" using all d by auto
  have ws: "dropWhile js_whitespace (decimal n) = decimal n"
    using digit_char_not_special(7) [OF k(1)] k(2) d by simp
  have sg: "strip_sign (decimal n) = (False, decimal n)"
    using digit_char_not_special(3,4) [OF k(1)] k(2) d by simp
  have pre: "take 2 (decimal n) \<noteq> ''0x''" "take 2 (decimal n) \<noteq> ''0X''"
  proof -
    show "take 2 (decimal n) \<noteq> ''0x''"
    proof (cases cs)
      case Nil then show ?thesis using d by simp
    next
      case (Cons c2 cs2)
      then obtain k2 where "k2 < 10" "c2 = digit_char k2" using all d by auto
      then show ?thesis using d Cons digit_char_not_special(5) by auto
    qed
    show "take 2 (decimal n) \<noteq> ''0X''"
    proof (cases cs)
      case Nil then show ?thesis using d by simp
    next
      case (Cons c2 cs2)
      then obtain k2 where "k2 < 10" "c2 = digit_char k2" using all d by auto
      then show ?thesis using d Cons digit_char_not_special(6) by auto
    qed
  qed
  have tw: "takeWhile (is_digit 10) (decimal n) = decimal n"
    using all is_digit_digit_char by (auto simp: takeWhile_eq_all_conv)
  show ?thesis
    by (simp add: parseInt_def ws sg pre tw decimal_nonempty digits_value_decimal)
qed


lemma split_lines_join:
  assumes "ls \<noteq> []" and "\<forall>l \<in> set ls. CHR 0x0A \<notin> set l"
  shows "split_lines (join_lines ls) = ls"
  using assms
proof (induction ls rule: join_lines.induct)
  case 1
  then show ?case by simp
next
  case (2 l)
  then have "takeWhile (\<lambda>c. c \<noteq> CHR 0x0A) l = l" "dropWhile (\<lambda>c. c \<noteq> CHR 0x0A) l = []"
    by (auto simp: takeWhile_eq_all_conv)
  then show ?case by (subst split_lines.simps) simp
next
  case (3 l l2 ls)
  have nl: "\<forall>c \<in> set l. c \<noteq> CHR 0x0A" using "3.prems" by auto
  have t: "takeWhile (\<lambda>c. c \<noteq> CHR 0x0A) (l @ CHR 0x0A # join_lines (l2 # ls)) = l"
    using nl by (simp add: takeWhile_append2)
  have d: "dropWhile (\<lambda>c. c \<noteq> CHR 0x0A) (l @ CHR 0x0A # join_lines (l2 # ls))
             = CHR 0x0A # join_lines (l2 # ls)"
    using nl by (simp add: dropWhile_append2)
  have "split_lines (join_lines (l2 # ls)) = l2 # ls"
    using "3.IH" "3.prems" by simp
  then show ?case
    by (subst split_lines.simps) (simp add: t d)
qed

lemma first_token_takeWhile: "first_token line = Some (takeWhile (\<lambda>c. c \<noteq> CHR '' '') line)"
  unfolding first_token_def by (subst split_spaces.simps) (simp add: Let_def)

lemma split_spaces_single: "CHR '' '' \<notin> set t \<Longrightarrow> split_spaces t = [t]"
proof -
  assume "CHR '' '' \<notin> set t"
  then have "takeWhile (\<lambda>c. c \<noteq> CHR '' '') t = t" "dropWhile (\<lambda>c. c \<noteq> CHR '' '') t = []"
    by (auto simp: takeWhile_eq_all_conv)
  then show ?thesis by (subst split_spaces.simps) simp
qed

lemma split_spaces_token:
  assumes "CHR '' '' \<notin> set t" and "s = [] \<or> hd s \<noteq> CHR '' ''"
  shows "split_spaces (t @ CHR '' '' # s) = t # split_spaces s"
proof -
  have ns: "\<forall>c \<in> set t. c \<noteq> CHR '' ''" using assms(1) by auto
  have t: "takeWhile (\<lambda>c. c \<noteq> CHR '' '') (t @ CHR '' '' # s) = t"
    using ns by (simp add: takeWhile_append2)
  have d: "dropWhile (\<lambda>c. c \<noteq> CHR '' '') (t @ CHR '' '' # s) = CHR '' '' # s"
    using ns by (simp add: dropWhile_append2)
  have d2: "dropWhile (\<lambda>c. c = CHR '' '') s = s"
    using assms(2) by (cases s) auto
  show ?thesis
    by (subst split_spaces.simps) (simp add: t d d2)
qed

lemma decimal_no_space: "CHR '' '' \<notin> set (decimal n)"
proof
  assume "CHR '' '' \<in> set (decimal n)"
  then obtain d where "d < 10" "CHR '' '' = digit_char d"
    using decimal_digits by blast
  then show False using digit_char_not_special(1) [of d] by simp
qed

lemma decimal_no_newline: "CHR 0x0A \<notin> set (decimal n)"
proof
  assume "CHR 0x0A \<in> set (decimal n)"
  then obtain d where "d < 10" "CHR 0x0A = digit_char d"
    using decimal_digits by blast
  then show False using digit_char_not_special(2) [of d] by simp
qed

lemma decimal_hd: "hd (decimal n @ s) \<noteq> CHR '' ''"
proof -
  obtain c cs where d: "decimal n = c # cs"
    using decimal_nonempty [of n] by (cases "decimal n") auto
  then have "c \<in> set (decimal n)" by simp
  then show ?thesis using d decimal_no_space [of n] by auto
qed

lemma split_spaces_face:
  "split_spaces (render_line (FLine a b c)) = [''f'', decimal a, decimal b, decimal c]"
proof -
  have 1: "split_spaces (decimal c) = [decimal c]"
    by (rule split_spaces_single [OF decimal_no_space])
  have 2: "split_spaces (decimal b @ CHR '' '' # decimal c) = decimal b # split_spaces (decimal c)"
    using decimal_hd [of c "[]"] by (intro split_spaces_token decimal_no_space) simp
  have 3: "split_spaces (decimal a @ CHR '' '' # decimal b @ CHR '' '' # decimal c)
             = decimal a # split_spaces (decimal b @ CHR '' '' # decimal c)"
    using decimal_hd [of b] by (intro split_spaces_token decimal_no_space) simp
  have 4: "split_spaces (''f'' @ CHR '' '' # decimal a @ CHR '' '' # decimal b @ CHR '' '' # decimal c)
             = ''f'' # split_spaces (decimal a @ CHR '' '' # decimal b @ CHR '' '' # decimal c)"
    using decimal_hd [of a] by (intro split_spaces_token) simp_all
  show ?thesis using 1 2 3 4 by simp
qed

lemma rendered_line_kind:
  "is_vertex_line (render_line l) = is_VLine l"
  "is_face_line (render_line l) = is_FLine l"
  by (cases l; simp add: is_vertex_line_def is_face_line_def is_comment_line_def first_token_takeWhile)+

lemma face_entries_rendered:
  "face_entries (render_line (FLine a b c)) = [Num (real a - 1), Num (real b - 1), Num (real c - 1)]"
  unfolding face_entries_def token_def split_spaces_face
  by (simp add: parseInt_decimal js_sub_def)

lemma faces_of_rendered:
  "concat (map face_entries (filter is_face_line (map render_line ls))) = concat (map face_indices ls)"
proof (induction ls)
  case Nil
  then show ?case by simp
next
  case (Cons l ls)
  show ?case
  proof (cases l)
    case (FLine a b c)
    then show ?thesis
      using Cons.IH by (simp add: rendered_line_kind face_entries_rendered del: render_line.simps)
  qed (use Cons.IH in \<open>simp_all add: rendered_line_kind del: render_line.simps\<close>)
qed

lemma rendered_no_newline: "wf_obj_line l \<Longrightarrow> CHR 0x0A \<notin> set (render_line l)"
  by (cases l) (auto simp: decimal_no_newline)

lemma split_lines_rendered:
  assumes "\<forall>l \<in> set ls. wf_obj_line l"
  shows "split_lines (join_lines (map render_line ls)) = (if ls = [] then [[]] else map render_line ls)"
proof (cases "ls = []")
  case True
  then show ?thesis by (simp add: split_lines.simps)
next
  case False
  then show ?thesis
    using assms by (simp add: split_lines_join rendered_no_newline)
qed

text \<open>
  C4.  For a text block of vertex lines, face lines, comment lines and empty lines,
  \<open>fromObj\<close> returns a mesh whose \<open>numVertices\<close> is the number of vertex lines, whose
  \<open>numFaces\<close> is the number of face lines, and whose face list holds, for each face
  line in order, its three indices less one.
\<close>

theorem fromObj_counts_and_indices:
  assumes "\<forall>l \<in> set ls. wf_obj_line l"
  shows "\<exists>m. fromObj (join_lines (map render_line ls)) = Inr m
           \<and> numVertices m = length (filter is_VLine ls)
           \<and> numFaces m = length (filter is_FLine ls)
           \<and> faces m = concat (map face_indices ls)"
proof -
  let ?text = "join_lines (map render_line ls)"
  obtain m where m: "fromObj ?text = Inr m"
    "vertices m = concat (map vertex_entries (filter is_vertex_line (split_lines ?text)))"
    "faces m = concat (map face_entries (filter is_face_line (split_lines ?text)))"
    "numVertices m = length (vertices m) div 3" "numFaces m = length (faces m) div 3"
    using fromObj_result [of ?text] by blast
  have blank: "\<not> is_vertex_line []" "\<not> is_face_line []"
    by (simp_all add: is_vertex_line_def is_face_line_def first_token_takeWhile)
  have fv: "filter is_vertex_line (split_lines ?text) = map render_line (filter is_VLine ls)"
    using blank by (simp add: split_lines_rendered [OF assms] filter_map o_def rendered_line_kind)
  have ff: "filter is_face_line (split_lines ?text) = map render_line (filter is_FLine ls)"
    using blank by (simp add: split_lines_rendered [OF assms] filter_map o_def rendered_line_kind)
  have f2: "filter is_face_line (split_lines ?text) = filter is_face_line (map render_line ls)"
    using blank by (simp add: split_lines_rendered [OF assms])
  have "numVertices m = length (filter is_VLine ls)"
    by (simp add: m(4) m(2) fv length_concat_triples)
  moreover have "numFaces m = length (filter is_FLine ls)"
    by (simp add: m(5) m(3) ff length_concat_triples)
  moreover have "faces m = concat (map face_indices ls)"
    by (simp add: m(3) f2 faces_of_rendered)
  ultimately show ?thesis using m(1) by blast
qed


text \<open>A block with a comment, three vertices, an empty line, one face and a final line feed.\<close>

definition example_obj_lines :: "obj_line list" where
  "example_obj_lines =
     [CommentLine '' one triangle'', VLine ''0'' ''0'' ''0'', VLine ''1.5'' ''0'' ''0'',
      VLine ''0'' ''2'' ''0'', BlankLine, FLine 1 2 3, BlankLine]"

lemma decimal_small: "n < 10 \<Longrightarrow> decimal n = [digit_char n]"
  by (subst decimal.simps) simp

theorem fromObj_counts_and_indices_witness:
  "list_all wf_obj_line example_obj_lines
   \<and> (\<exists>m. fromObj (''# one triangle'' @ [CHR 0x0A] @ ''v 0 0 0'' @ [CHR 0x0A] @ ''v 1.5 0 0''
                    @ [CHR 0x0A] @ ''v 0 2 0'' @ [CHR 0x0A] @ [CHR 0x0A] @ ''f 1 2 3'' @ [CHR 0x0A]) = Inr m
          \<and> numVertices m = 3 \<and> numFaces m = 1 \<and> faces m = [Num 0, Num 1, Num 2])"
proof -
  have wf: "\<forall>l \<in> set example_obj_lines. wf_obj_line l"
    by (simp add: example_obj_lines_def)
  have wl: "list_all wf_obj_line example_obj_lines"
    by (simp add: example_obj_lines_def)
  have rendered: "join_lines (map render_line example_obj_lines)
     = ''# one triangle'' @ [CHR 0x0A] @ ''v 0 0 0'' @ [CHR 0x0A] @ ''v 1.5 0 0''
         @ [CHR 0x0A] @ ''v 0 2 0'' @ [CHR 0x0A] @ [CHR 0x0A] @ ''f 1 2 3'' @ [CHR 0x0A]"
    by (simp add: example_obj_lines_def decimal_small digit_char_def)
  have "\<exists>m. fromObj (''# one triangle'' @ [CHR 0x0A] @ ''v 0 0 0'' @ [CHR 0x0A] @ ''v 1.5 0 0''
                    @ [CHR 0x0A] @ ''v 0 2 0'' @ [CHR 0x0A] @ [CHR 0x0A] @ ''f 1 2 3'' @ [CHR 0x0A]) = Inr m
          \<and> numVertices m = 3 \<and> numFaces m = 1 \<and> faces m = [Num 0, Num 1, Num 2]"
    using fromObj_counts_and_indices [OF wf]
    unfolding rendered by (simp add: example_obj_lines_def numeral_3_eq_3)
  then show ?thesis
    using wl by blast
qed








subsection \<open>Face indices of the meshes the constructors build\<close>

text \<open>
  The face array of a mesh read from OBJ text holds \<open>parseInt(...) - 1\<close> for each
  index token, and the plane and the cube write their indices out: each entry is an
  integer or NaN, which is what the theorem on vertex normals asks of the faces.
\<close>

lemma signed_nat_integer_or_NaN: "integer_or_NaN (Num ((if b then - 1 else 1) * real n))"
proof -
  have "(if b then - 1 else 1) * real n = of_int ((if b then - 1 else 1) * int n)"
    by simp
  then show ?thesis unfolding integer_or_NaN_def by blast
qed

lemma parseInt_integer_or_NaN: "integer_or_NaN (parseInt tok)"
proof -
  obtain minus S1 where s: "strip_sign (dropWhile js_whitespace (js_ToString tok)) = (minus, S1)"
    by (cases "strip_sign (dropWhile js_whitespace (js_ToString tok))")
  obtain R S2 where r: "(if take 2 S1 = ''0x'' \<or> take 2 S1 = ''0X'' then (16, drop 2 S1) else (10, S1))
      = (R :: nat, S2)"
    by (cases "(if take 2 S1 = ''0x'' \<or> take 2 S1 = ''0X'' then (16, drop 2 S1) else (10 :: nat, S1))")
      auto
  have "parseInt tok = (if takeWhile (is_digit R) S2 = [] then NaN
      else Num ((if minus then - 1 else 1) * real (digits_value R (takeWhile (is_digit R) S2))))"
    unfolding parseInt_def Let_def s prod.case r ..
  moreover have "integer_or_NaN NaN" by (simp add: integer_or_NaN_def)
  ultimately show ?thesis
    using signed_nat_integer_or_NaN by simp
qed

lemma js_sub_one_integer_or_NaN:
  assumes "integer_or_NaN v"
  shows "integer_or_NaN (js_sub v (Num 1))"
proof (cases "v = NaN")
  case True
  then show ?thesis by (simp add: js_sub_def integer_or_NaN_def)
next
  case False
  then obtain z :: int where "v = Num (of_int z)"
    using assms by (auto simp: integer_or_NaN_def)
  then have "js_sub v (Num 1) = Num (of_int (z - 1))"
    by (simp add: js_sub_def)
  then show ?thesis unfolding integer_or_NaN_def by blast
qed

lemma face_entries_integer_or_NaN: "v \<in> set (face_entries line) \<Longrightarrow> integer_or_NaN v"
  by (auto simp: face_entries_def js_sub_one_integer_or_NaN parseInt_integer_or_NaN)

lemma fromObj_faces_integer_or_NaN:
  assumes "fromObj fileText = Inr m"
  shows "\<forall>v \<in> set (faces m). integer_or_NaN v"
proof -
  obtain m' where "fromObj fileText = Inr m'"
    and f: "faces m' = concat (map face_entries (filter is_face_line (split_lines fileText)))"
    using fromObj_result [of fileText] by blast
  then have "m' = m" using assms by simp
  then show ?thesis
    using f face_entries_integer_or_NaN by auto
qed

lemma fromPlane_faces_integer_or_NaN: "\<forall>v \<in> set (faces (fromPlane axis)). integer_or_NaN v"
proof -
  have "faces (fromPlane axis) = map Num [0, 1, 2, 0, 2, 3]"
    by (simp add: fromPlane_def new_Mesh_def Let_def)
  moreover have "integer_or_NaN (Num 0)" "integer_or_NaN (Num 1)" "integer_or_NaN (Num 2)"
    "integer_or_NaN (Num 3)"
    using integer_or_NaN_nat [of 0] integer_or_NaN_nat [of 1] integer_or_NaN_nat [of 2]
      integer_or_NaN_nat [of 3] by simp_all
  ultimately show ?thesis by simp
qed

lemma fromCube_faces_integer_or_NaN: "\<forall>v \<in> set (faces (fromCube sz)). integer_or_NaN v"
proof -
  have "faces (fromCube sz) = map (\<lambda>n. Num (real n))
          [0, 1, 2, 0, 2, 3,  3, 2, 6, 3, 6, 7,  5, 4, 6, 4, 7, 6,
           1, 0, 5, 0, 4, 5,  2, 1, 5, 2, 5, 6,  0, 3, 7, 0, 7, 4]"
    by (simp add: fromCube_def new_Mesh_def Let_def)
  then show ?thesis
    using integer_or_NaN_nat by (simp only: set_map) blast
qed

subsection \<open>A plane along an unknown axis\<close>

lemma fromPlane_other_fields:
  assumes "axis \<notin> {''x'', ''X'', ''y'', ''Y'', ''z'', ''Z''}"
  shows "vertices (fromPlane axis) = []"
    and "faces (fromPlane axis) = map Num [0, 1, 2, 0, 2, 3]"
    and "numVertices (fromPlane axis) = 4"
    and "numFaces (fromPlane axis) = 2"
  using assms by (simp_all add: fromPlane_def new_Mesh_def)

text \<open>
  C10.  For an axis other than \<open>x\<close>, \<open>X\<close>, \<open>y\<close>, \<open>Y\<close>, \<open>z\<close>, \<open>Z\<close>, \<open>fromPlane\<close> still
  pushes the faces \<open>(0, 1, 2)\<close> and \<open>(0, 2, 3)\<close> and sets \<open>numVertices = 4\<close> and
  \<open>numFaces = 2\<close>, while the vertex list stays empty: every face index names a vertex
  that does not exist, each of the three reads of \<open>getVertex\<close> on it is out of bounds
  (\<open>undefined\<close>), and the vertex it returns is all NaN.
\<close>

theorem fromPlane_unknown_axis:
  assumes "axis \<notin> {''x'', ''X'', ''y'', ''Y'', ''z'', ''Z''}"
  shows "vertices (fromPlane axis) = []
       \<and> faces (fromPlane axis) = map Num [0, 1, 2, 0, 2, 3]
       \<and> numVertices (fromPlane axis) = 4
       \<and> numFaces (fromPlane axis) = 2
       \<and> (\<forall>f \<in> set (faces (fromPlane axis)). \<forall>k \<in> {0, 1, 2}.
             js_index (vertices (fromPlane axis)) (js_add (js_mul (Num 3) f) (Num k)) = None)
       \<and> (\<forall>f \<in> set (faces (fromPlane axis)). getVertex (fromPlane axis) f = (NaN, NaN, NaN))"
proof -
  have oob: "js_index ([] :: jsnum list) k = None" for k
    by (cases k) simp_all
  show ?thesis
    using assms
    by (simp add: fromPlane_other_fields getVertex_def vec3_fromValues_def oob)
qed

theorem fromPlane_unknown_axis_witness:
  "vertices (fromPlane ''w'') = []
   \<and> faces (fromPlane ''w'') = map Num [0, 1, 2, 0, 2, 3]
   \<and> numVertices (fromPlane ''w'') = 4
   \<and> numFaces (fromPlane ''w'') = 2
   \<and> getVertex (fromPlane ''w'') (Num 3) = (NaN, NaN, NaN)"
  using fromPlane_unknown_axis [of "''w''"] by simp

section \<open>Properties of the shader\<close>

lemma compileShader_null_iff:
  "fst (compileShader gl source type) = None
     \<longleftrightarrow> \<not> COMPILE_STATUS gl \<lparr>shader_type = type, shader_source = source\<rparr>"
  by (simp add: compileShader_def Let_def)

lemma linkShaderProgram_null_iff:
  "fst (linkShaderProgram gl v f) = None
     \<longleftrightarrow> \<not> LINK_STATUS gl \<lparr>attached_vert = v, attached_frag = f\<rparr>"
  by (simp add: linkShaderProgram_def Let_def)

lemma fromDOM_compile_failure:
  assumes "loadDOMScriptSource document vertElem = Inr vsrc"
    and "loadDOMScriptSource document fragElem = Inr fsrc"
    and "\<not> COMPILE_STATUS gl \<lparr>shader_type = VERTEX_SHADER, shader_source = vsrc\<rparr>
         \<or> \<not> COMPILE_STATUS gl \<lparr>shader_type = FRAGMENT_SHADER, shader_source = fsrc\<rparr>"
  shows "fst (fromDOM gl document vertElem fragElem) = Inr None"
  using assms by (auto simp: fromDOM_def compileShader_def Let_def split: prod.splits)

lemma fromDOM_wraps_link_result:
  assumes "loadDOMScriptSource document vertElem = Inr vsrc"
    and "loadDOMScriptSource document fragElem = Inr fsrc"
    and "COMPILE_STATUS gl \<lparr>shader_type = VERTEX_SHADER, shader_source = vsrc\<rparr>"
    and "COMPILE_STATUS gl \<lparr>shader_type = FRAGMENT_SHADER, shader_source = fsrc\<rparr>"
    and "\<not> LINK_STATUS gl
           \<lparr>attached_vert = \<lparr>shader_type = VERTEX_SHADER, shader_source = vsrc\<rparr>,
            attached_frag = \<lparr>shader_type = FRAGMENT_SHADER, shader_source = fsrc\<rparr>\<rparr>"
  shows "fst (fromDOM gl document vertElem fragElem) = Inr (Some \<lparr>program = None\<rparr>)"
  using assms
  by (simp add: fromDOM_def compileShader_def linkShaderProgram_def new_Shader_def Let_def)

text \<open>
  A host on which every shader compiles and no program links, and a document with the
  two script elements.
\<close>

definition link_failing_host :: gl_host where
  "link_failing_host =
     \<lparr>COMPILE_STATUS = (\<lambda>s. True), getShaderInfoLog = (\<lambda>s. []),
      LINK_STATUS = (\<lambda>p. False), getProgramInfoLog = (\<lambda>p. ''varyings do not match'')\<rparr>"

definition two_script_document :: dom where
  "two_script_document =
     (\<lambda>e. if e = ''shader-vs'' then Some [\<lparr>nodeType = 3, textContent = ''void main() {}''\<rparr>]
          else if e = ''shader-fs'' then Some [\<lparr>nodeType = 3, textContent = ''void main() {}''\<rparr>]
          else None)"

text \<open>
  C3.  A failure of compilation or linking should reach the caller as \<open>null\<close>.
  \<open>compileShader\<close> and \<open>linkShaderProgram\<close> do return \<open>null\<close>, and \<open>fromDOM\<close> returns
  \<open>null\<close> when a shader does not compile.  When both shaders compile and linking
  fails, \<open>fromDOM\<close> wraps the \<open>null\<close> of \<open>linkShaderProgram\<close> in a new \<open>Shader\<close>
  object and returns that object: the caller's test for \<open>null\<close> does not see the failure.
\<close>

theorem fromDOM_link_failure_not_null:
  "fromDOM link_failing_host two_script_document ''shader-vs'' ''shader-fs''
     = (Inr (Some \<lparr>program = None\<rparr>),
        [Alert ''Failed to link shader!'', ConsoleLog ''Error linking shader: varyings do not match''])"
  by (simp add: fromDOM_def loadDOMScriptSource_def compileShader_def linkShaderProgram_def
      link_failing_host_def two_script_document_def new_Shader_def)

section \<open>Properties of the texture loader\<close>

text \<open>The six images of a cube map, in the order in which \<open>cubemapFromUrl\<close> asks for them.\<close>

definition cube_images :: "string \<Rightarrow> string \<Rightarrow> string \<Rightarrow> string \<Rightarrow> string \<Rightarrow> string \<Rightarrow> image list" where
  "cube_images negX negY negZ posX posY posZ =
     [\<lparr>src = negX, extra = Some \<lparr>face = TEXTURE_CUBE_MAP_NEGATIVE_X\<rparr>\<rparr>,
      \<lparr>src = negY, extra = Some \<lparr>face = TEXTURE_CUBE_MAP_NEGATIVE_Y\<rparr>\<rparr>,
      \<lparr>src = negZ, extra = Some \<lparr>face = TEXTURE_CUBE_MAP_NEGATIVE_Z\<rparr>\<rparr>,
      \<lparr>src = posX, extra = Some \<lparr>face = TEXTURE_CUBE_MAP_POSITIVE_X\<rparr>\<rparr>,
      \<lparr>src = posY, extra = Some \<lparr>face = TEXTURE_CUBE_MAP_POSITIVE_Y\<rparr>\<rparr>,
      \<lparr>src = posZ, extra = Some \<lparr>face = TEXTURE_CUBE_MAP_POSITIVE_Z\<rparr>\<rparr>]"

lemma cube_images_init:
  "map loading (promises (cubemapFromUrl h negX negY negZ posX posY posZ))
     = cube_images negX negY negZ posX posY posZ"
  "map loaded (promises (cubemapFromUrl h negX negY negZ posX posY posZ)) = replicate 6 Pending"
  by (simp_all add: cubemapFromUrl_def imageFromUrl_def cube_images_def numeral_eq_Suc)

text \<open>
  What holds of a cube map after any sequence of events: the six loads are there with
  their images; load \<open>k\<close> is fulfilled with its image once image \<open>k\<close> has loaded and is
  pending before; the promise returned is fulfilled, and the six uploads are made in
  the order of the array, once all six have loaded, and before that it is pending and
  nothing has been sent to the host.
\<close>

definition all_loaded :: "browser_event list \<Rightarrow> bool" where
  "all_loaded evs \<longleftrightarrow> (\<forall>k<6. ImageLoaded k \<in> set evs)"

definition cube_inv :: "image list \<Rightarrow> nat \<Rightarrow> browser_event list \<Rightarrow> cubemap \<Rightarrow> bool" where
  "cube_inv imgs h evs c \<longleftrightarrow>
     length (promises c) = 6
     \<and> map loading (promises c) = imgs
     \<and> (\<forall>k<6. loaded (promises c ! k)
                 = (if ImageLoaded k \<in> set evs then Fulfilled (imgs ! k) else Pending))
     \<and> (if all_loaded evs
         then returned c = Fulfilled \<lparr>texture = h, textureType = TEXTURE_CUBE_MAP\<rparr>
              \<and> uploads_of (host_calls c) = map (\<lambda>i. (face (the (extra i)), i)) imgs
         else returned c = Pending \<and> host_calls c = [] \<and> next_handle c = h)"

lemma cube_inv_init:
  "cube_inv (cube_images negX negY negZ posX posY posZ) h []
     (cubemapFromUrl h negX negY negZ posX posY posZ)"
  unfolding cube_inv_def cube_images_init
  by (auto simp: cubemapFromUrl_def imageFromUrl_def all_loaded_def cube_images_def
      less_Suc_eq numeral_eq_Suc)

lemma uploads_of_append: "uploads_of (xs @ ys) = uploads_of xs @ uploads_of ys"
  by (induction xs rule: uploads_of.induct) simp_all

lemma upload_faces_cube:
  "upload_faces (cube_images negX negY negZ posX posY posZ)
     = (concat (map (\<lambda>i. [console_log i, texImage2D (face (the (extra i))) 0 RGBA RGBA UNSIGNED_BYTE i])
                  (cube_images negX negY negZ posX posY posZ)), True)"
  by (simp add: cube_images_def)

lemma all_fulfilled_iff:
  assumes "length ps = 6"
  shows "(\<forall>l \<in> set ps. is_fulfilled (loaded l)) \<longleftrightarrow> (\<forall>k<6. is_fulfilled (loaded (ps ! k)))"
  using assms by (simp add: all_set_conv_all_nth)

lemma cube_inv_step:
  assumes inv: "cube_inv (cube_images negX negY negZ posX posY posZ) h evs c"
  shows "cube_inv (cube_images negX negY negZ posX posY posZ) h (evs @ [e]) (cubemap_event e c)"
proof -
  let ?imgs = "cube_images negX negY negZ posX posY posZ"
  have len: "length (promises c) = 6" and imgs: "map loading (promises c) = ?imgs"
    and ld: "\<And>k. k < 6 \<Longrightarrow> loaded (promises c ! k)
                 = (if ImageLoaded k \<in> set evs then Fulfilled (?imgs ! k) else Pending)"
    using inv by (simp_all add: cube_inv_def)
  have ret: "all_loaded evs \<Longrightarrow> returned c = Fulfilled \<lparr>texture = h, textureType = TEXTURE_CUBE_MAP\<rparr>
              \<and> uploads_of (host_calls c) = map (\<lambda>i. (face (the (extra i)), i)) ?imgs"
    and nret: "\<not> all_loaded evs \<Longrightarrow> returned c = Pending \<and> host_calls c = [] \<and> next_handle c = h"
    using inv by (simp_all add: cube_inv_def)
  show ?thesis
  proof (cases e)
    case (ImageFailed k)
    have "all_loaded (evs @ [e]) = all_loaded evs"
      by (simp add: all_loaded_def ImageFailed)
    then show ?thesis
      using inv by (simp add: ImageFailed cube_inv_def image_onerror_def)
  next
    case (ImageLoaded k)
    show ?thesis
    proof (cases "k < 6")
      case False
      have "all_loaded (evs @ [e]) = all_loaded evs"
        using False by (auto simp: all_loaded_def ImageLoaded)
      moreover have "\<And>j. j < 6 \<Longrightarrow> (ImageLoaded j \<in> set (evs @ [e])) = (ImageLoaded j \<in> set evs)"
        using False by (auto simp: ImageLoaded)
      ultimately show ?thesis
        using inv False by (simp add: ImageLoaded cube_inv_def len)
    next
      case True
      let ?ps = "(promises c)[k := image_onload (promises c ! k)]"
      have len': "length ?ps = 6" using len by simp
      have imgs': "map loading ?ps = ?imgs"
        using True len imgs [symmetric]
        by (simp add: map_update image_onload_def list_update_same_conv)
      have lk: "loading (promises c ! k) = ?imgs ! k"
        using True len imgs [symmetric] by simp
      have ld': "loaded (?ps ! j)
                 = (if ImageLoaded j \<in> set (evs @ [e]) then Fulfilled (?imgs ! j) else Pending)"
        if "j < 6" for j
        using that True len ld [of j] ld [of k] lk
        by (auto simp: ImageLoaded nth_list_update image_onload_def)
      have before: "(\<exists>l \<in> set (promises c). \<not> is_fulfilled (loaded l)) \<longleftrightarrow> \<not> all_loaded evs"
        using all_fulfilled_iff [OF len] ld by (auto simp: all_loaded_def)
      have after: "(\<forall>l \<in> set ?ps. is_fulfilled (loaded l)) \<longleftrightarrow> all_loaded (evs @ [e])"
        using all_fulfilled_iff [OF len'] ld' by (auto simp: all_loaded_def)
      have mono: "all_loaded evs \<Longrightarrow> all_loaded (evs @ [e])"
        by (simp add: all_loaded_def)
      have ev: "cubemap_event e c =
          (if \<not> all_loaded evs \<and> all_loaded (evs @ [e])
           then all_loaded_callback ?imgs (c\<lparr>promises := ?ps\<rparr>) else c\<lparr>promises := ?ps\<rparr>)"
        using True len before after imgs' by (simp add: ImageLoaded Let_def)
      show ?thesis
      proof (cases "all_loaded evs")
        case al: True
        then show ?thesis
          using ret mono len' imgs' ld' by (simp add: ev cube_inv_def)
      next
        case nal: False
        show ?thesis
        proof (cases "all_loaded (evs @ [e])")
          case False
          then show ?thesis
            using nal nret len' imgs' ld' by (simp add: ev cube_inv_def)
        next
          case True
          then show ?thesis
            using nal nret len' imgs' ld'
            by (simp add: ev cube_inv_def all_loaded_callback_def upload_faces_cube
                uploads_of_append) (simp add: cube_images_def)
        qed
      qed
    qed
  qed
qed

lemma cube_inv_run:
  "cube_inv (cube_images negX negY negZ posX posY posZ) h evs
     (cubemap_run evs (cubemapFromUrl h negX negY negZ posX posY posZ))"
proof (induction evs rule: rev_induct)
  case Nil
  then show ?case by (simp add: cubemap_run_def cube_inv_init)
next
  case (snoc e evs)
  then show ?case
    using cube_inv_step [of negX negY negZ posX posY posZ h evs _ e]
    by (simp add: cubemap_run_def)
qed


text \<open>
  C5.  Whatever the order in which the images load or fail, the promise returned by
  \<open>cubemapFromUrl\<close> is settled only when all six images have loaded, it is fulfilled
  then, and the uploads made are the six faces in the order requested:
  \<open>-X\<close>, \<open>-Y\<close>, \<open>-Z\<close>, \<open>+X\<close>, \<open>+Y\<close>, \<open>+Z\<close>, each with its own image.
\<close>

theorem cubemapFromUrl_joins_in_request_order:
  "(returned (cubemap_run evs (cubemapFromUrl h negX negY negZ posX posY posZ)) \<noteq> Pending
      \<longrightarrow> (\<forall>k<6. ImageLoaded k \<in> set evs))
   \<and> ((\<forall>k<6. ImageLoaded k \<in> set evs)
      \<longrightarrow> returned (cubemap_run evs (cubemapFromUrl h negX negY negZ posX posY posZ))
            = Fulfilled \<lparr>texture = h, textureType = TEXTURE_CUBE_MAP\<rparr>)
   \<and> uploads_of (host_calls (cubemap_run evs (cubemapFromUrl h negX negY negZ posX posY posZ)))
       = (if \<forall>k<6. ImageLoaded k \<in> set evs
          then [(TEXTURE_CUBE_MAP_NEGATIVE_X, \<lparr>src = negX, extra = Some \<lparr>face = TEXTURE_CUBE_MAP_NEGATIVE_X\<rparr>\<rparr>),
                (TEXTURE_CUBE_MAP_NEGATIVE_Y, \<lparr>src = negY, extra = Some \<lparr>face = TEXTURE_CUBE_MAP_NEGATIVE_Y\<rparr>\<rparr>),
                (TEXTURE_CUBE_MAP_NEGATIVE_Z, \<lparr>src = negZ, extra = Some \<lparr>face = TEXTURE_CUBE_MAP_NEGATIVE_Z\<rparr>\<rparr>),
                (TEXTURE_CUBE_MAP_POSITIVE_X, \<lparr>src = posX, extra = Some \<lparr>face = TEXTURE_CUBE_MAP_POSITIVE_X\<rparr>\<rparr>),
                (TEXTURE_CUBE_MAP_POSITIVE_Y, \<lparr>src = posY, extra = Some \<lparr>face = TEXTURE_CUBE_MAP_POSITIVE_Y\<rparr>\<rparr>),
                (TEXTURE_CUBE_MAP_POSITIVE_Z, \<lparr>src = posZ, extra = Some \<lparr>face = TEXTURE_CUBE_MAP_POSITIVE_Z\<rparr>\<rparr>)]
          else [])"
proof -
  let ?c = "cubemap_run evs (cubemapFromUrl h negX negY negZ posX posY posZ)"
  have inv: "cube_inv (cube_images negX negY negZ posX posY posZ) h evs ?c"
    by (rule cube_inv_run)
  show ?thesis
  proof (cases "all_loaded evs")
    case True
    then have "returned ?c = Fulfilled \<lparr>texture = h, textureType = TEXTURE_CUBE_MAP\<rparr>"
      and "uploads_of (host_calls ?c)
             = map (\<lambda>i. (face (the (extra i)), i)) (cube_images negX negY negZ posX posY posZ)"
      using inv by (simp_all add: cube_inv_def)
    then show ?thesis
      using True by (simp add: all_loaded_def cube_images_def)
  next
    case False
    then have "returned ?c = Pending" and "host_calls ?c = []"
      using inv by (simp_all add: cube_inv_def)
    then show ?thesis
      using False by (simp add: all_loaded_def)
  qed
qed

lemma image_run_loaded:
  "loaded (fold image_dispatch ievs l)
     = (if LoadEvent \<in> set ievs then resolve (loaded l) (loading l) else loaded l)
   \<and> loading (fold image_dispatch ievs l) = loading l"
proof (induction ievs rule: rev_induct)
  case Nil
  then show ?case by simp
next
  case (snoc e ievs)
  show ?case
  proof (cases e)
    case LoadEvent
    then show ?thesis
      using snoc by (cases "loaded l") (simp_all add: image_onload_def)
  next
    case ErrorEvent
    then show ?thesis
      using snoc by (simp add: image_onerror_def)
  qed
qed

text \<open>
  C8.  A promise of \<open>imageFromUrl\<close> is never rejected, and stays pending for ever when
  the image does not load; the same holds inside \<open>cubemapFromUrl\<close>, whose own promise is
  never rejected either and stays pending as long as one of the six images has not
  loaded.
\<close>

theorem imageFromUrl_never_rejects:
  "(\<forall>e. loaded (fold image_dispatch ievs (imageFromUrl url ext)) \<noteq> Rejected e)
   \<and> (LoadEvent \<notin> set ievs \<longrightarrow> loaded (fold image_dispatch ievs (imageFromUrl url ext)) = Pending)
   \<and> (\<forall>l \<in> set (promises (cubemap_run evs (cubemapFromUrl h negX negY negZ posX posY posZ))).
         \<forall>e. loaded l \<noteq> Rejected e)
   \<and> (\<forall>e. returned (cubemap_run evs (cubemapFromUrl h negX negY negZ posX posY posZ)) \<noteq> Rejected e)
   \<and> (\<forall>k<6. ImageLoaded k \<notin> set evs
         \<longrightarrow> loaded (promises (cubemap_run evs (cubemapFromUrl h negX negY negZ posX posY posZ)) ! k) = Pending
           \<and> returned (cubemap_run evs (cubemapFromUrl h negX negY negZ posX posY posZ)) = Pending)"
proof -
  let ?c = "cubemap_run evs (cubemapFromUrl h negX negY negZ posX posY posZ)"
  let ?imgs = "cube_images negX negY negZ posX posY posZ"
  have inv: "cube_inv ?imgs h evs ?c"
    by (rule cube_inv_run)
  have single: "loaded (fold image_dispatch ievs (imageFromUrl url ext))
                  = (if LoadEvent \<in> set ievs then Fulfilled \<lparr>src = url, extra = ext\<rparr> else Pending)"
    using image_run_loaded [of ievs "imageFromUrl url ext"] by (simp add: imageFromUrl_def)
  have len: "length (promises ?c) = 6"
    and ld: "\<And>k. k < 6 \<Longrightarrow> loaded (promises ?c ! k)
                 = (if ImageLoaded k \<in> set evs then Fulfilled (?imgs ! k) else Pending)"
    using inv by (simp_all add: cube_inv_def)
  have ret: "returned ?c = Pending \<or> returned ?c = Fulfilled \<lparr>texture = h, textureType = TEXTURE_CUBE_MAP\<rparr>"
    using inv by (auto simp: cube_inv_def split: if_splits)
  have pend: "returned ?c = Pending" if "k < 6" "ImageLoaded k \<notin> set evs" for k
  proof -
    have "\<not> all_loaded evs" using that by (auto simp: all_loaded_def)
    then show ?thesis using inv by (simp add: cube_inv_def)
  qed
  have nrej: "loaded l \<noteq> Rejected e" if mem: "l \<in> set (promises ?c)" for l e
  proof -
    obtain k where "k < length (promises ?c)" "promises ?c ! k = l"
      using mem unfolding in_set_conv_nth by blast
    then have "k < 6" "l = promises ?c ! k" using len by simp_all
    then show ?thesis using ld [of k] by auto
  qed
  show ?thesis
    using single ld ret pend nrej by auto
qed


lemma all_less_6:
  "(\<forall>k<6. P k) \<longleftrightarrow> P (0::nat) \<and> P 1 \<and> P 2 \<and> P 3 \<and> P 4 \<and> P 5"
proof -
  have "k < 6 \<longleftrightarrow> k = 0 \<or> k = 1 \<or> k = 2 \<or> k = 3 \<or> k = 4 \<or> k = 5" for k :: nat
    by arith
  then show ?thesis by auto
qed

text \<open>Six images that load out of order, one of them after a failed attempt.\<close>

definition out_of_order_loads :: "browser_event list" where
  "out_of_order_loads =
     [ImageLoaded 5, ImageLoaded 0, ImageFailed 2, ImageLoaded 3, ImageLoaded 2, ImageLoaded 1,
      ImageLoaded 4]"

theorem cubemapFromUrl_joins_in_request_order_witness:
  "list_all (\<lambda>k. ImageLoaded k \<in> set out_of_order_loads) [0, 1, 2, 3, 4, 5]
   \<and> returned (cubemap_run out_of_order_loads (cubemapFromUrl 7 ''nx'' ''ny'' ''nz'' ''px'' ''py'' ''pz''))
       = Fulfilled \<lparr>texture = 7, textureType = TEXTURE_CUBE_MAP\<rparr>
   \<and> map fst (uploads_of (host_calls
         (cubemap_run out_of_order_loads (cubemapFromUrl 7 ''nx'' ''ny'' ''nz'' ''px'' ''py'' ''pz''))))
       = [TEXTURE_CUBE_MAP_NEGATIVE_X, TEXTURE_CUBE_MAP_NEGATIVE_Y, TEXTURE_CUBE_MAP_NEGATIVE_Z,
          TEXTURE_CUBE_MAP_POSITIVE_X, TEXTURE_CUBE_MAP_POSITIVE_Y, TEXTURE_CUBE_MAP_POSITIVE_Z]
   \<and> returned (cubemap_run (take 4 out_of_order_loads)
                 (cubemapFromUrl 7 ''nx'' ''ny'' ''nz'' ''px'' ''py'' ''pz'')) = Pending
   \<and> uploads_of (host_calls (cubemap_run (take 4 out_of_order_loads)
                 (cubemapFromUrl 7 ''nx'' ''ny'' ''nz'' ''px'' ''py'' ''pz''))) = []"
proof -
  have a: "\<forall>k<6. ImageLoaded k \<in> set out_of_order_loads"
    by (simp add: all_less_6 out_of_order_loads_def)
  have l: "list_all (\<lambda>k. ImageLoaded k \<in> set out_of_order_loads) [0, 1, 2, 3, 4, 5]"
    by (simp add: out_of_order_loads_def)
  have b: "\<not> (\<forall>k<6. ImageLoaded k \<in> set (take 4 out_of_order_loads))"
    by (simp add: all_less_6 out_of_order_loads_def)
  have "returned (cubemap_run out_of_order_loads (cubemapFromUrl 7 ''nx'' ''ny'' ''nz'' ''px'' ''py'' ''pz''))
       = Fulfilled \<lparr>texture = 7, textureType = TEXTURE_CUBE_MAP\<rparr>
   \<and> map fst (uploads_of (host_calls
         (cubemap_run out_of_order_loads (cubemapFromUrl 7 ''nx'' ''ny'' ''nz'' ''px'' ''py'' ''pz''))))
       = [TEXTURE_CUBE_MAP_NEGATIVE_X, TEXTURE_CUBE_MAP_NEGATIVE_Y, TEXTURE_CUBE_MAP_NEGATIVE_Z,
          TEXTURE_CUBE_MAP_POSITIVE_X, TEXTURE_CUBE_MAP_POSITIVE_Y, TEXTURE_CUBE_MAP_POSITIVE_Z]
   \<and> returned (cubemap_run (take 4 out_of_order_loads)
                 (cubemapFromUrl 7 ''nx'' ''ny'' ''nz'' ''px'' ''py'' ''pz'')) = Pending
   \<and> uploads_of (host_calls (cubemap_run (take 4 out_of_order_loads)
                 (cubemapFromUrl 7 ''nx'' ''ny'' ''nz'' ''px'' ''py'' ''pz''))) = []"
    using cubemapFromUrl_joins_in_request_order
            [of out_of_order_loads 7 "''nx''" "''ny''" "''nz''" "''px''" "''py''" "''pz''"]
          cubemapFromUrl_joins_in_request_order
            [of "take 4 out_of_order_loads" 7 "''nx''" "''ny''" "''nz''" "''px''" "''py''" "''pz''"]
          a b
    by auto
  then show ?thesis
    using l by blast
qed

theorem imageFromUrl_never_rejects_witness:
  "LoadEvent \<notin> set [ErrorEvent]
   \<and> loaded (fold image_dispatch [ErrorEvent] (imageFromUrl ''nx'' None)) = Pending
   \<and> (2::nat) < 6 \<and> ImageLoaded 2 \<notin> set (take 4 out_of_order_loads)
   \<and> loaded (promises (cubemap_run (take 4 out_of_order_loads)
                 (cubemapFromUrl 7 ''nx'' ''ny'' ''nz'' ''px'' ''py'' ''pz'')) ! 2) = Pending
   \<and> returned (cubemap_run (take 4 out_of_order_loads)
                 (cubemapFromUrl 7 ''nx'' ''ny'' ''nz'' ''px'' ''py'' ''pz'')) = Pending"
proof -
  have a: "ImageLoaded 2 \<notin> set (take 4 out_of_order_loads)"
    by (simp add: out_of_order_loads_def)
  show ?thesis
    using imageFromUrl_never_rejects
            [of "[ErrorEvent]" "''nx''" None "take 4 out_of_order_loads" 7
                "''nx''" "''ny''" "''nz''" "''px''" "''py''" "''pz''"] a
    unfolding all_less_6 by simp
qed

section \<open>Properties of the camera\<close>

lemma set_mat4_simps [simp]:
  "vec3s (set_mat4 r m s) = vec3s s"
  "quats (set_mat4 r m s) = quats s"
  "mat4s (set_mat4 r m s) q = (if q = r then m else mat4s s q)"
  "next_ref (set_mat4 r m s) = next_ref s"
  by (simp_all add: set_mat4_def)

lemma set_vec3_simps [simp]:
  "vec3s (set_vec3 r v s) q = (if q = r then v else vec3s s q)"
  "quats (set_vec3 r v s) = quats s"
  "mat4s (set_vec3 r v s) = mat4s s"
  "next_ref (set_vec3 r v s) = next_ref s"
  by (simp_all add: set_vec3_def)

lemma set_quat_simps [simp]:
  "vec3s (set_quat r v s) = vec3s s"
  "quats (set_quat r v s) q = (if q = r then v else quats s q)"
  "mat4s (set_quat r v s) = mat4s s"
  "next_ref (set_quat r v s) = next_ref s"
  by (simp_all add: set_quat_def)

text \<open>The references of a camera do not overlap where a method writes.\<close>

definition camera_wf :: "camera \<Rightarrow> bool" where
  "camera_wf this \<longleftrightarrow>
     translation this \<notin> {eyePoint this, up this, viewPoint this, lookDirection this}"

lemma new_Camera_fields:
  assumes "new_Camera origin lookDir s = (this, s0)"
  shows "eyePoint this = next_ref s" "up this = next_ref s + 1" "viewPoint this = next_ref s + 2"
    "translation this = next_ref s + 3" "rotation this = next_ref s + 4"
    "lookDirection this = lookDir" "lookAtMatrix this = next_ref s + 5"
  using assms by (auto simp: new_Camera_def new_vec3_def new_quat_def new_mat4_def Let_def)

lemma new_Camera_store:
  assumes "new_Camera origin lookDir s = (this, s0)" and "lookDir < next_ref s"
  shows "vec3s s0 (eyePoint this) = vec3s s origin"
    "vec3s s0 (up this) = (0, 1, 0)"
    "vec3s s0 (viewPoint this) = rvec3_add (vec3s s origin) (vec3s s lookDir)"
    "vec3s s0 (translation this) = rvec3_create"
    "quats s0 (rotation this) = quat_create"
    "vec3s s0 (lookDirection this) = vec3s s lookDir"
    "mat4s s0 (lookAtMatrix this)
       = mat4_lookAt (vec3s s origin) (rvec3_add (vec3s s origin) (vec3s s lookDir)) (0, 1, 0)"
  using assms by (auto simp: new_Camera_def new_vec3_def new_quat_def new_mat4_def Let_def)

lemma new_Camera_wf:
  assumes "new_Camera origin lookDir s = (this, s0)" and "lookDir < next_ref s"
  shows "camera_wf this"
  using new_Camera_fields [OF assms(1)] assms(2) by (simp add: camera_wf_def)

lemma mat4_multiply_identity_left: "mat4_multiply mat4_create m = m"
  by (cases m) (simp add: mat4_create_def)

lemma mat4_fromQuat_identity: "mat4_fromQuat quat_create = mat4_create"
  by (simp add: quat_create_def mat4_create_def)

lemma mat4_fromTranslation_zero: "mat4_fromTranslation rvec3_create = mat4_create"
  by (simp add: rvec3_create_def mat4_create_def)

lemma getViewMatrix_identity:
  assumes "quats s (rotation this) = quat_create" and "vec3s s (translation this) = rvec3_create"
    and "outMatrix \<noteq> lookAtMatrix this"
  shows "mat4s (getViewMatrix this outMatrix s) outMatrix = mat4s s (lookAtMatrix this)"
  using assms
  by (simp add: getViewMatrix_def Let_def mat4_fromQuat_identity mat4_fromTranslation_zero
      mat4_multiply_identity_left)

text \<open>What one call leaves alone.\<close>

definition no_alias :: "camera \<Rightarrow> camera_call \<Rightarrow> bool" where
  "no_alias this c \<longleftrightarrow> c \<noteq> GetViewMatrix (lookAtMatrix this)"

lemma camera_do_frame:
  assumes "camera_wf this" and "no_alias this c"
  shows "vec3s (camera_do degToRad this c s) (eyePoint this) = vec3s s (eyePoint this)"
    "vec3s (camera_do degToRad this c s) (up this) = vec3s s (up this)"
    "vec3s (camera_do degToRad this c s) (viewPoint this) = vec3s s (viewPoint this)"
    "vec3s (camera_do degToRad this c s) (lookDirection this) = vec3s s (lookDirection this)"
    "mat4s (camera_do degToRad this c s) (lookAtMatrix this) = mat4s s (lookAtMatrix this)"
  using assms
  by (cases c; simp add: camera_wf_def no_alias_def rotateX_def rotateY_def rotateZ_def
      rotateLocalX_def rotateLocalY_def rotateLocalZ_def setWorldPos_def translate_def
      translateLocal_def getViewMatrix_def Let_def)+

lemma camera_run_frame:
  assumes "camera_wf this" and "list_all (no_alias this) calls"
  shows "vec3s (camera_run degToRad this calls s) (eyePoint this) = vec3s s (eyePoint this)
       \<and> vec3s (camera_run degToRad this calls s) (up this) = vec3s s (up this)
       \<and> vec3s (camera_run degToRad this calls s) (viewPoint this) = vec3s s (viewPoint this)
       \<and> vec3s (camera_run degToRad this calls s) (lookDirection this) = vec3s s (lookDirection this)
       \<and> mat4s (camera_run degToRad this calls s) (lookAtMatrix this) = mat4s s (lookAtMatrix this)"
  using assms(2)
proof (induction calls arbitrary: s)
  case Nil
  then show ?case by (simp add: camera_run_def)
next
  case (Cons c calls)
  then have c: "no_alias this c" and cs: "list_all (no_alias this) calls" by simp_all
  show ?case
    using Cons.IH [OF cs, of "camera_do degToRad this c s"] camera_do_frame [OF assms(1) c, of degToRad s]
    by (simp add: camera_run_def)
qed


text \<open>
  C6.  Take a camera as the constructor made it, in a state reached by calls of its
  methods none of which is \<open>getViewMatrix\<close> on the camera's own \<open>lookAtMatrix\<close>, with the
  rotation the identity quaternion and the translation zero (as right after
  construction).  Then \<open>getViewMatrix\<close>, given any output matrix but the camera's own
  \<open>lookAtMatrix\<close>, stores in it the camera's look-at matrix, which is the one the
  constructor built from the eye point, the view point and the up vector.
\<close>

theorem getViewMatrix_initial_is_lookAt:
  assumes "new_Camera origin lookDir s = (this, s0)" and "lookDir < next_ref s"
    and "GetViewMatrix (lookAtMatrix this) \<notin> set calls"
    and "s1 = camera_run degToRad this calls s0"
    and "quats s1 (rotation this) = quat_create" and "vec3s s1 (translation this) = rvec3_create"
    and "outMatrix \<noteq> lookAtMatrix this"
  shows "mat4s (getViewMatrix this outMatrix s1) outMatrix = mat4s s1 (lookAtMatrix this)
       \<and> mat4s s1 (lookAtMatrix this)
           = mat4_lookAt (vec3s s origin) (rvec3_add (vec3s s origin) (vec3s s lookDir)) (0, 1, 0)"
proof -
  have na: "list_all (no_alias this) calls"
    using assms(3) by (auto simp: list_all_iff no_alias_def)
  have "mat4s s1 (lookAtMatrix this) = mat4s s0 (lookAtMatrix this)"
    using camera_run_frame [OF new_Camera_wf [OF assms(1,2)] na, of degToRad s0] assms(4) by simp
  then show ?thesis
    using getViewMatrix_identity [OF assms(5,6,7)] new_Camera_store(7) [OF assms(1,2)] by simp
qed

text \<open>
  C9.  For a camera as the constructor made it and any sequence of calls of its methods
  in which \<open>getViewMatrix\<close> is never given the camera's own \<open>lookAtMatrix\<close> as its
  output, the contents of \<open>eyePoint\<close>, \<open>up\<close>, \<open>viewPoint\<close>, \<open>lookDirection\<close> and
  \<open>lookAtMatrix\<close> after the calls are those before them.
\<close>

theorem camera_fields_unchanged:
  assumes "new_Camera origin lookDir s = (this, s0)" and "lookDir < next_ref s"
    and "GetViewMatrix (lookAtMatrix this) \<notin> set calls"
  shows "vec3s (camera_run degToRad this calls s0) (eyePoint this) = vec3s s0 (eyePoint this)
       \<and> vec3s (camera_run degToRad this calls s0) (up this) = vec3s s0 (up this)
       \<and> vec3s (camera_run degToRad this calls s0) (viewPoint this) = vec3s s0 (viewPoint this)
       \<and> vec3s (camera_run degToRad this calls s0) (lookDirection this) = vec3s s0 (lookDirection this)
       \<and> mat4s (camera_run degToRad this calls s0) (lookAtMatrix this) = mat4s s0 (lookAtMatrix this)"
proof -
  have na: "list_all (no_alias this) calls"
    using assms(3) by (auto simp: list_all_iff no_alias_def)
  show ?thesis
    by (rule camera_run_frame [OF new_Camera_wf [OF assms(1,2)] na])
qed

text \<open>
  A store with an origin \<open>(0, 0, 5)\<close> at reference 0 and a direction \<open>(0, 0, -1)\<close> at
  reference 1, and the camera made from them.
\<close>

definition example_store :: store where
  "example_store =
     \<lparr>vec3s = (\<lambda>r. if r = 0 then (0, 0, 5) else if r = 1 then (0, 0, - 1) else (0, 0, 0)),
      quats = (\<lambda>r. (0, 0, 0, 1)), mat4s = (\<lambda>r. mat4_create), next_ref = 2\<rparr>"

definition example_camera :: camera where
  "example_camera = fst (new_Camera 0 1 example_store)"

definition example_camera_store :: store where
  "example_camera_store = snd (new_Camera 0 1 example_store)"

text \<open>The usual conversion from degrees, for the examples.\<close>

definition degToRad_usual :: "real \<Rightarrow> real" where
  "degToRad_usual degrees = degrees * pi / 180"

lemma example_new_Camera:
  "new_Camera 0 1 example_store = (example_camera, example_camera_store)"
  by (simp add: example_camera_def example_camera_store_def)

lemma example_lookAt:
  "mat4_lookAt (0, 0, 5) (rvec3_add (0, 0, 5) (0, 0, - 1)) (0, 1, 0)
     = Mat4 1 0 0 0  0 1 0 0  0 0 1 0  0 0 (- 5) 1"
  by (simp add: glMatrix_EPSILON_def hypot3_def)

lemma example_camera_facts:
  "lookAtMatrix example_camera = 7" "rotation example_camera = 6"
  "translation example_camera = 5" "eyePoint example_camera = 2"
  "quats example_camera_store (rotation example_camera) = quat_create"
  "vec3s example_camera_store (translation example_camera) = rvec3_create"
  "mat4s example_camera_store (lookAtMatrix example_camera) = Mat4 1 0 0 0  0 1 0 0  0 0 1 0  0 0 (- 5) 1"
  "vec3s example_camera_store (eyePoint example_camera) = (0, 0, 5)"
proof -
  have lt: "(1::nat) < next_ref example_store" by (simp add: example_store_def)
  show "lookAtMatrix example_camera = 7" "rotation example_camera = 6"
    "translation example_camera = 5" "eyePoint example_camera = 2"
    using new_Camera_fields [OF example_new_Camera] by (simp_all add: example_store_def)
  show "quats example_camera_store (rotation example_camera) = quat_create"
    "vec3s example_camera_store (translation example_camera) = rvec3_create"
    using new_Camera_store [OF example_new_Camera lt] by simp_all
  show "mat4s example_camera_store (lookAtMatrix example_camera) = Mat4 1 0 0 0  0 1 0 0  0 0 1 0  0 0 (- 5) 1"
    using new_Camera_store(7) [OF example_new_Camera lt] example_lookAt
    by (simp add: example_store_def)
  show "vec3s example_camera_store (eyePoint example_camera) = (0, 0, 5)"
    using new_Camera_store(1) [OF example_new_Camera lt] by (simp add: example_store_def)
qed

lemma example_store_facts:
  "quats example_camera_store 6 = (0, 0, 0, 1)"
  "vec3s example_camera_store 5 = (0, 0, 0)"
  "mat4s example_camera_store 7 = Mat4 1 0 0 0  0 1 0 0  0 0 1 0  0 0 (- 5) 1"
  "vec3s example_camera_store 2 = (0, 0, 5)"
  using example_camera_facts(5-8)
  unfolding example_camera_facts(1-4) quat_create_def rvec3_create_def by simp_all

text \<open>
  Against C6 as stated: the camera of the example has the identity rotation and zero
  translation, and its look-at matrix moves the eye to the origin.  Given that very
  matrix as output, \<open>getViewMatrix\<close> first stores \<open>rot * trans\<close>, the identity, in it,
  and then multiplies the identity by what the look-at matrix has become: the output
  is the identity and not the look-at matrix the constructor built.
\<close>

theorem getViewMatrix_into_own_lookAtMatrix:
  "quats example_camera_store (rotation example_camera) = quat_create
   \<and> vec3s example_camera_store (translation example_camera) = rvec3_create
   \<and> mat4s example_camera_store (lookAtMatrix example_camera) = Mat4 1 0 0 0  0 1 0 0  0 0 1 0  0 0 (- 5) 1
   \<and> mat4s (getViewMatrix example_camera (lookAtMatrix example_camera) example_camera_store)
        (lookAtMatrix example_camera) = Mat4 1 0 0 0  0 1 0 0  0 0 1 0  0 0 0 1
   \<and> mat4s (getViewMatrix example_camera (lookAtMatrix example_camera) example_camera_store)
        (lookAtMatrix example_camera) \<noteq> mat4s example_camera_store (lookAtMatrix example_camera)"
  by (simp add: example_camera_facts(1-4) example_store_facts getViewMatrix_def Let_def
      quat_create_def rvec3_create_def)

theorem getViewMatrix_initial_is_lookAt_witness:
  "new_Camera 0 1 example_store = (example_camera, example_camera_store)
   \<and> (1::nat) < next_ref example_store
   \<and> GetViewMatrix (lookAtMatrix example_camera) \<notin> set [RotateX 0, GetViewMatrix 40]
   \<and> quats (camera_run degToRad_usual example_camera [RotateX 0, GetViewMatrix 40] example_camera_store)
        (rotation example_camera) = quat_create
   \<and> vec3s (camera_run degToRad_usual example_camera [RotateX 0, GetViewMatrix 40] example_camera_store)
        (translation example_camera) = rvec3_create
   \<and> (41::nat) \<noteq> lookAtMatrix example_camera
   \<and> mat4s (getViewMatrix example_camera 41
               (camera_run degToRad_usual example_camera [RotateX 0, GetViewMatrix 40] example_camera_store))
        41 = Mat4 1 0 0 0  0 1 0 0  0 0 1 0  0 0 (- 5) 1"
proof -
  let ?s1 = "camera_run degToRad_usual example_camera [RotateX 0, GetViewMatrix 40] example_camera_store"
  have lt: "(1::nat) < next_ref example_store" by (simp add: example_store_def)
  have na: "GetViewMatrix (lookAtMatrix example_camera) \<notin> set [RotateX 0, GetViewMatrix 40]"
    by (simp add: example_camera_facts)
  have q: "quats ?s1 (rotation example_camera) = quat_create"
    by (simp add: camera_run_def rotateX_def getViewMatrix_def Let_def example_camera_facts(1-4)
        example_store_facts degToRad_usual_def quat_create_def)
  have t: "vec3s ?s1 (translation example_camera) = rvec3_create"
    by (simp add: camera_run_def rotateX_def getViewMatrix_def Let_def example_camera_facts(1-4)
        example_store_facts rvec3_create_def)
  have ne: "(41::nat) \<noteq> lookAtMatrix example_camera"
    by (simp add: example_camera_facts)
  have "mat4s (getViewMatrix example_camera 41 ?s1) 41 = Mat4 1 0 0 0  0 1 0 0  0 0 1 0  0 0 (- 5) 1"
    using getViewMatrix_initial_is_lookAt [OF example_new_Camera lt na refl q t ne] example_lookAt
    by (simp add: example_store_def)
  then show ?thesis
    using example_new_Camera lt na q t ne by blast
qed

text \<open>A sequence with every kind of call, the view matrix going to an object of the caller.\<close>

definition example_calls :: "camera_call list" where
  "example_calls =
     [RotateX 30, RotateLocalY 45, Translate 1 2 3, GetViewMatrix 40, TranslateLocal 0 0 1,
      SetWorldPos 4 5 6, GetLocalVector 1 0 0, RotateZ 10]"

text \<open>
  Against C9 as stated: the same call changes the contents of \<open>lookAtMatrix\<close>.
\<close>

theorem camera_lookAtMatrix_overwritten:
  "mat4s (camera_run degToRad_usual example_camera [GetViewMatrix (lookAtMatrix example_camera)]
            example_camera_store) (lookAtMatrix example_camera)
     \<noteq> mat4s example_camera_store (lookAtMatrix example_camera)"
  by (simp add: camera_run_def example_camera_facts(1-4) example_store_facts getViewMatrix_def
      Let_def)

theorem camera_fields_unchanged_witness:
  "new_Camera 0 1 example_store = (example_camera, example_camera_store)
   \<and> (1::nat) < next_ref example_store
   \<and> GetViewMatrix (lookAtMatrix example_camera) \<notin> set example_calls
   \<and> vec3s (camera_run degToRad_usual example_camera example_calls example_camera_store)
        (eyePoint example_camera) = (0, 0, 5)
   \<and> mat4s (camera_run degToRad_usual example_camera example_calls example_camera_store)
        (lookAtMatrix example_camera) = Mat4 1 0 0 0  0 1 0 0  0 0 1 0  0 0 (- 5) 1"
proof -
  have lt: "(1::nat) < next_ref example_store" by (simp add: example_store_def)
  have na: "GetViewMatrix (lookAtMatrix example_camera) \<notin> set example_calls"
    by (simp add: example_camera_facts example_calls_def)
  show ?thesis
    using camera_fields_unchanged [OF example_new_Camera lt na, of degToRad_usual]
      example_new_Camera lt na example_camera_facts(7,8)
    by simp
qed

end
